theory Spec2Isabelle
  imports Main
begin

section \<open>JavaScript values\<close>

text \<open>
  Handlers, hooks and panel messages exchange untyped JavaScript values. A value is
  \<^verbatim>\<open>undefined\<close>, \<^verbatim>\<open>null\<close>, a primitive, an \<^verbatim>\<open>Error\<close> object (by constructor name), a
  function, or an object given by the properties a read can see, in the order they were
  written. A function carries, besides its name, what an \<^verbatim>\<open>await\<close> ends with when the
  function is the \<^verbatim>\<open>then\<close> method of the awaited object: the \<^verbatim>\<open>await\<close> hands back a
  value (the one reached after following any further thenable), throws a value, or never
  resumes. Numbers are integers.
\<close>

datatype jsval =
    JUndefined
  | JNull
  | JBool bool
  | JNum int
  | JStr string
  | JError string
  | JFun string settlement
  | JObj "(string \<times> jsval) list"
and settlement =
    Fulfils jsval
  | Rejects jsval
  | Pending

fun typeof :: "jsval \<Rightarrow> string" where
  "typeof JUndefined = ''undefined''"
| "typeof JNull = ''object''"
| "typeof (JBool b) = ''boolean''"
| "typeof (JNum n) = ''number''"
| "typeof (JStr s) = ''string''"
| "typeof (JError n) = ''object''"
| "typeof (JFun n s) = ''function''"
| "typeof (JObj ps) = ''object''"

text \<open>Truthiness, as \<^verbatim>\<open>!x\<close>, \<^verbatim>\<open>x || y\<close> and \<^verbatim>\<open>if (x)\<close> test it.\<close>

fun truthy :: "jsval \<Rightarrow> bool" where
  "truthy JUndefined = False"
| "truthy JNull = False"
| "truthy (JBool b) = b"
| "truthy (JNum n) = (n \<noteq> 0)"
| "truthy (JStr s) = (s \<noteq> [])"
| "truthy (JError n) = True"
| "truthy (JFun n s) = True"
| "truthy (JObj ps) = True"

definition js_or :: "jsval \<Rightarrow> jsval \<Rightarrow> jsval" where
  "js_or a b = (if truthy a then a else b)"

text \<open>
  Reading a property \<^verbatim>\<open>v.k\<close>. On \<^verbatim>\<open>undefined\<close> and \<^verbatim>\<open>null\<close> the read throws a
  \<^verbatim>\<open>TypeError\<close>; on an object the last property written under the name wins; the
  other values have no property of the names read here (\<^verbatim>\<open>then\<close>, \<^verbatim>\<open>catch\<close>).
\<close>

fun get_prop :: "jsval \<Rightarrow> string \<Rightarrow> jsval + jsval" where
  "get_prop JUndefined k = Inl (JError ''TypeError'')"
| "get_prop JNull k = Inl (JError ''TypeError'')"
| "get_prop (JObj ps) k = Inr (case map_of (rev ps) k of None \<Rightarrow> JUndefined | Some v \<Rightarrow> v)"
| "get_prop v k = Inr JUndefined"

text \<open>
  \<^verbatim>\<open>await v\<close>: an object whose \<^verbatim>\<open>then\<close> is a function settles as that method says;
  every other value is handed back unchanged.
\<close>

fun await :: "jsval \<Rightarrow> settlement" where
  "await (JObj ps) =
     (case map_of (rev ps) ''then'' of
        Some (JFun n s) \<Rightarrow> s
      | _ \<Rightarrow> Fulfils (JObj ps))"
| "await v = Fulfils v"

text \<open>
  The dictionaries of the extension are plain objects created by \<^verbatim>\<open>{}\<close>. A read under
  a name the object has no property of its own for is answered by \<^verbatim>\<open>Object.prototype\<close>
  for the names below: by a function, of which the table gives the \<^verbatim>\<open>length\<close>, or, for
  \<^verbatim>\<open>__proto__\<close>, by the prototype itself, whose \<^verbatim>\<open>length\<close> is undefined. Such a value is
  truthy and has no \<^verbatim>\<open>push\<close>, \<^verbatim>\<open>forEach\<close> or \<^verbatim>\<open>includes\<close>.
\<close>

definition object_prototype_length :: "string \<Rightarrow> jsval option" where
  "object_prototype_length =
     map_of [(''constructor'', JNum 1),
             (''toString'', JNum 0),
             (''toLocaleString'', JNum 0),
             (''valueOf'', JNum 0),
             (''hasOwnProperty'', JNum 1),
             (''isPrototypeOf'', JNum 1),
             (''propertyIsEnumerable'', JNum 1),
             (''__defineGetter__'', JNum 2),
             (''__defineSetter__'', JNum 2),
             (''__lookupGetter__'', JNum 1),
             (''__lookupSetter__'', JNum 1),
             (''__proto__'', JUndefined)]"

text \<open>Decimal printing, for template strings.\<close>

fun show_nat :: "nat \<Rightarrow> string" where
  "show_nat n =
     (if n < 10 then [''0123456789'' ! n]
      else show_nat (n div 10) @ [''0123456789'' ! (n mod 10)])"

declare show_nat.simps [simp del]

definition show_int :: "int \<Rightarrow> string" where
  "show_int i = (if i < 0 then CHR ''-'' # show_nat (nat (- i)) else show_nat (nat i))"

definition quoted :: "string \<Rightarrow> string" where
  "quoted s = CHR 0x27 # s @ [CHR 0x27]"

text \<open>String conversion inside a template string \<^verbatim>\<open>`${v}`\<close>.\<close>

fun to_string :: "jsval \<Rightarrow> string" where
  "to_string JUndefined = ''undefined''"
| "to_string JNull = ''null''"
| "to_string (JBool b) = (if b then ''true'' else ''false'')"
| "to_string (JNum n) = show_int n"
| "to_string (JStr s) = s"
| "to_string (JError n) = n"
| "to_string (JFun n s) = ''function''"
| "to_string (JObj ps) = ''[object Object]''"


section \<open>The extension: hooks, events and command dispatch\<close>

text \<open>\<^verbatim>\<open>ICommandEvent\<close> and \<^verbatim>\<open>ICommandSuccessEvent\<close>.\<close>

record command_event =
  command :: string
  args :: "jsval list"

record command_success_event = command_event +
  result :: jsval

text \<open>
  A hook is a callback on an event. It is known by a name, under which its invocations
  are observed, and it either returns (\<open>None\<close>) or throws a value. What a hook does to
  the extension itself (registering further hooks while it runs) or to the argument array
  and the result it is handed (they are the very objects the handler gets and the caller
  receives) is not modelled.
\<close>

datatype 'e hook = Hook (hook_name: string) (hook_body: "'e \<Rightarrow> jsval option")

text \<open>What one run of a command or a plugin load pass does that an observer can see, in order.\<close>

datatype event =
    LogInfo string "jsval list option"
  | LogDebug string
  | WillRunFired command_event
  | DidRunFired command_success_event
  | BeforeHookCalled string command_event
  | AfterHookCalled string command_success_event
  | HandlerCalled "jsval list"
  | Suspended
  | UnexpectedError jsval
  | RegisterCalled string
  | ErrorReported string jsval
  | UpdateExtPluginsInfo

text \<open>
  A handler is called on the arguments of the invocation and returns a value or throws
  one. What it does besides is not modelled; its call is an event of the trace.
\<close>

datatype outcome = Returns jsval | Throws jsval

type_synonym handler = "jsval list \<Rightarrow> outcome"

datatype registration_kind = RegisterCommand | RegisterTextEditorCommand

text \<open>
  The part of \<^verbatim>\<open>SQLToolsExtension\<close> a plugin's \<^verbatim>\<open>register\<close> works on: the two hook
  dictionaries and the commands handed to the host (full name, kind, command, handler).
  A dictionary is given by the properties of its own, a map from command names to hook
  lists.
\<close>

record registries =
  willRunCommandHooks :: "string \<rightharpoonup> command_event hook list"
  didRunCommandSuccessfullyHooks :: "string \<rightharpoonup> command_success_event hook list"
  registered :: "(string \<times> registration_kind \<times> string \<times> handler) list"

text \<open>
  \<^verbatim>\<open>addHook\<close>, for each of the two dictionaries: the exception, if any, and the
  dictionary after the call. Under a name that \<^verbatim>\<open>Object.prototype\<close> answers no list is
  created, and \<^verbatim>\<open>push\<close> on the inherited value throws a \<^verbatim>\<open>TypeError\<close>.
\<close>

definition addHook ::
  "(string \<rightharpoonup> 'e hook list) \<Rightarrow> string \<Rightarrow> 'e hook \<Rightarrow> jsval option \<times> (string \<rightharpoonup> 'e hook list)" where
  "addHook dict cmd h =
     (case dict cmd of
        Some hs \<Rightarrow> (None, dict(cmd \<mapsto> hs @ [h]))
      | None \<Rightarrow>
          (case object_prototype_length cmd of
             None \<Rightarrow> (None, dict(cmd \<mapsto> [] @ [h]))
           | Some inherited \<Rightarrow> (Some (JError ''TypeError''), dict)))"

definition addBeforeCommandHook ::
  "string \<Rightarrow> command_event hook \<Rightarrow> registries \<Rightarrow> jsval option \<times> registries" where
  "addBeforeCommandHook cmd h ext =
     (case addHook (willRunCommandHooks ext) cmd h of
        (r, dict) \<Rightarrow> (r, ext\<lparr>willRunCommandHooks := dict\<rparr>))"

definition addAfterCommandSuccessHook ::
  "string \<Rightarrow> command_success_event hook \<Rightarrow> registries \<Rightarrow> jsval option \<times> registries" where
  "addAfterCommandSuccessHook cmd h ext =
     (case addHook (didRunCommandSuccessfullyHooks ext) cmd h of
        (r, dict) \<Rightarrow> (r, ext\<lparr>didRunCommandSuccessfullyHooks := dict\<rparr>))"

text \<open>
  \<^verbatim>\<open>hooks.forEach(hook => hook(evt))\<close>: the hooks run in list order; a hook that throws
  ends the iteration, and the exception leaves the loop.
\<close>

fun forEach :: "'e hook list \<Rightarrow> (string \<Rightarrow> 'e \<Rightarrow> event) \<Rightarrow> 'e \<Rightarrow> event list \<times> jsval option" where
  "forEach [] called evt = ([], None)"
| "forEach (h # hs) called evt =
     (case hook_body h evt of
        Some err \<Rightarrow> ([called (hook_name h) evt], Some err)
      | None \<Rightarrow> (case forEach hs called evt of (tr, r) \<Rightarrow> (called (hook_name h) evt # tr, r)))"

text \<open>
  The two listeners. Where the dictionary has no list of its own for the command, the
  read is \<^verbatim>\<open>undefined\<close> and the listener returns, unless \<^verbatim>\<open>Object.prototype\<close> answers:
  then the listener returns if the inherited \<^verbatim>\<open>length\<close> is 0, and otherwise logs and
  throws a \<^verbatim>\<open>TypeError\<close> at \<^verbatim>\<open>forEach\<close>.
\<close>

definition onWillRunCommandHandler :: "registries \<Rightarrow> command_event \<Rightarrow> event list \<times> jsval option" where
  "onWillRunCommandHandler ext evt =
     (if command evt = [] then ([], None)
      else case willRunCommandHooks ext (command evt) of
        None \<Rightarrow>
          (case object_prototype_length (command evt) of
             None \<Rightarrow> ([], None)
           | Some len \<Rightarrow>
               if len = JNum 0 then ([], None)
               else ([LogDebug (''Will run '' @ to_string len
                        @ '' attached handler for '' @ quoted ''beforeCommandHooks'')],
                     Some (JError ''TypeError'')))
      | Some hs \<Rightarrow>
          if length hs = 0 then ([], None)
          else (case forEach hs BeforeHookCalled evt of (tr, r) \<Rightarrow>
                  (LogDebug (''Will run '' @ show_nat (length hs)
                      @ '' attached handler for '' @ quoted ''beforeCommandHooks'') # tr, r)))"

definition onDidRunCommandSuccessfullyHandler ::
  "registries \<Rightarrow> command_success_event \<Rightarrow> event list \<times> jsval option" where
  "onDidRunCommandSuccessfullyHandler ext evt =
     (if command evt = [] then ([], None)
      else case didRunCommandSuccessfullyHooks ext (command evt) of
        None \<Rightarrow>
          (case object_prototype_length (command evt) of
             None \<Rightarrow> ([], None)
           | Some len \<Rightarrow>
               if len = JNum 0 then ([], None)
               else ([LogDebug (''Will run '' @ to_string len
                        @ '' attached handler for '' @ quoted ''afterCommandSuccessfullyHooks'')],
                     Some (JError ''TypeError'')))
      | Some hs \<Rightarrow>
          if length hs = 0 then ([], None)
          else (case forEach hs AfterHookCalled evt of (tr, r) \<Rightarrow>
                  (LogDebug (''Will run '' @ show_nat (length hs)
                      @ '' attached handler for '' @ quoted ''afterCommandSuccessfullyHooks'') # tr, r)))"

text \<open>
  \<^verbatim>\<open>EventEmitter.fire\<close> of the host, with the one listener \<^verbatim>\<open>activate\<close> subscribes to
  each emitter (commands are registered after that). The host delivers the event inside
  a try/catch: an exception of the listener is reported as an unexpected error and does
  not reach the code that fired.
\<close>

definition fire :: "('e \<Rightarrow> event list \<times> jsval option) \<Rightarrow> 'e \<Rightarrow> event list" where
  "fire listener evt =
     (case listener evt of
        (tr, None) \<Rightarrow> tr
      | (tr, Some err) \<Rightarrow> tr @ [UnexpectedError err])"

text \<open>
  The test on the handler's result,
  \<^verbatim>\<open>typeof result !== 'undefined' && (typeof result.then === 'function' || typeof result.catch === 'function')\<close>.
  The property reads can throw.
\<close>

definition looks_pending :: "jsval \<Rightarrow> jsval + bool" where
  "looks_pending r =
     (if typeof r = ''undefined'' then Inr False
      else case get_prop r ''then'' of
        Inl e \<Rightarrow> Inl e
      | Inr t \<Rightarrow>
          if typeof t = ''function'' then Inr True
          else (case get_prop r ''catch'' of
                  Inl e \<Rightarrow> Inl e
                | Inr c \<Rightarrow> Inr (typeof c = ''function'')))"

text \<open>
  The callback \<^verbatim>\<open>decorateAndRegisterCommand\<close> hands to the host, run on the arguments of
  one invocation. \<open>ns\<close> is \<^verbatim>\<open>EXT_NAMESPACE\<close>, \<open>dev\<close> says whether \<^verbatim>\<open>NODE_ENV\<close> is
  \<^verbatim>\<open>development\<close>. The callback is an \<^verbatim>\<open>async\<close> function: what its caller gets is how
  the returned promise settles, and an exception inside it is a rejection. The trace
  records \<open>Suspended\<close> where the \<^verbatim>\<open>await\<close> gives up the current turn.
\<close>

definition decorated ::
  "string \<Rightarrow> bool \<Rightarrow> registries \<Rightarrow> string \<Rightarrow> handler \<Rightarrow> jsval list \<Rightarrow> settlement \<times> event list" where
  "decorated ns dev ext cmd h as =
     (let t0 = [if dev then LogInfo (''EXECUTING => '' @ ns @ ''.'' @ cmd @ '' %O'') (Some as)
                else LogInfo (''EXECUTING => '' @ ns @ ''.'' @ cmd) None]
             @ WillRunFired \<lparr>command = cmd, args = as\<rparr>
             # fire (onWillRunCommandHandler ext) \<lparr>command = cmd, args = as\<rparr>
             @ [HandlerCalled as];
          done = (\<lambda>t v. (Fulfils v,
                   t @ DidRunFired \<lparr>command = cmd, args = as, result = v\<rparr>
                     # fire (onDidRunCommandSuccessfullyHandler ext)
                         \<lparr>command = cmd, args = as, result = v\<rparr>))
      in case h as of
           Throws e \<Rightarrow> (Rejects e, t0)
         | Returns r \<Rightarrow>
             (case looks_pending r of
                Inl e \<Rightarrow> (Rejects e, t0)
              | Inr False \<Rightarrow> done t0 r
              | Inr True \<Rightarrow>
                  (case await r of
                     Fulfils v \<Rightarrow> done (t0 @ [Suspended]) v
                   | Rejects e \<Rightarrow> (Rejects e, t0 @ [Suspended])
                   | Pending \<Rightarrow> (Pending, t0 @ [Suspended]))))"

definition decorateAndRegisterCommand ::
  "string \<Rightarrow> string \<Rightarrow> handler \<Rightarrow> registration_kind \<Rightarrow> registries \<Rightarrow> registries" where
  "decorateAndRegisterCommand ns cmd h kind ext =
     ext\<lparr>registered := registered ext @ [(ns @ ''.'' @ cmd, kind, cmd, h)]\<rparr>"

definition registerCommand :: "string \<Rightarrow> string \<Rightarrow> handler \<Rightarrow> registries \<Rightarrow> registries" where
  "registerCommand ns cmd h ext = decorateAndRegisterCommand ns cmd h RegisterCommand ext"

definition registerTextEditorCommand :: "string \<Rightarrow> string \<Rightarrow> handler \<Rightarrow> registries \<Rightarrow> registries" where
  "registerTextEditorCommand ns cmd h ext =
     decorateAndRegisterCommand ns cmd h RegisterTextEditorCommand ext"

text \<open>The events of a trace that are invocations of a hook or of the handler.\<close>

fun is_before_call :: "event \<Rightarrow> bool" where
  "is_before_call (BeforeHookCalled n e) = True"
| "is_before_call _ = False"

fun is_after_call :: "event \<Rightarrow> bool" where
  "is_after_call (AfterHookCalled n e) = True"
| "is_after_call _ = False"

fun is_handler_call :: "event \<Rightarrow> bool" where
  "is_handler_call (HandlerCalled as) = True"
| "is_handler_call _ = False"

fun is_did_run :: "event \<Rightarrow> bool" where
  "is_did_run (DidRunFired e) = True"
| "is_did_run _ = False"

definition is_call :: "event \<Rightarrow> bool" where
  "is_call e = (is_before_call e \<or> is_after_call e \<or> is_handler_call e)"

definition hooks_of :: "(string \<rightharpoonup> 'e hook list) \<Rightarrow> string \<Rightarrow> 'e hook list" where
  "hooks_of dict cmd = (case dict cmd of None \<Rightarrow> [] | Some hs \<Rightarrow> hs)"


section \<open>Plugins\<close>

text \<open>
  \<^verbatim>\<open>IExtensionPlugin\<close>. \<^verbatim>\<open>register(this)\<close> works on the registries of the extension
  and either returns or throws; what it did before throwing stays done. A plugin that
  registers further plugins while it is being loaded is not modelled.
\<close>

record plugin =
  name :: string
  extensionId :: "string option"
  type :: "string option"
  register :: "registries \<Rightarrow> jsval option \<times> registries"

record extension =
  pluginsQueue :: "plugin list"
  extPlugins :: "string \<rightharpoonup> string list"
  loaded :: bool
  regs :: registries

text \<open>\<^verbatim>\<open>plugin.type || 'general'\<close>.\<close>

definition type_tag :: "plugin \<Rightarrow> string" where
  "type_tag p = (case type p of None \<Rightarrow> ''general'' | Some t \<Rightarrow> if t = [] then ''general'' else t)"

text \<open>
  The bookkeeping of \<^verbatim>\<open>loadPlugins\<close> after a \<^verbatim>\<open>register\<close> that returned: the
  exception, if any, and the lists after it. \<^verbatim>\<open>if (plugin.extensionId)\<close> holds when the
  id is there and is not the empty string. \<^verbatim>\<open>extPlugins\<close> is a plain object, given by
  the lists it has of its own: under a tag that \<^verbatim>\<open>Object.prototype\<close> answers,
  \<^verbatim>\<open>this.extPlugins[tag] || []\<close> keeps the inherited value, and \<^verbatim>\<open>includes\<close> on it
  throws a \<^verbatim>\<open>TypeError\<close>.
\<close>

definition record_extensionId ::
  "plugin \<Rightarrow> (string \<rightharpoonup> string list) \<Rightarrow> jsval option \<times> (string \<rightharpoonup> string list)" where
  "record_extensionId p m =
     (case extensionId p of
        None \<Rightarrow> (None, m)
      | Some i \<Rightarrow>
          if i = [] then (None, m)
          else (case m (type_tag p) of
                  Some ids \<Rightarrow> (None, m(type_tag p \<mapsto> (if i \<in> set ids then ids else ids @ [i])))
                | None \<Rightarrow>
                    (case object_prototype_length (type_tag p) of
                       None \<Rightarrow> (None, m(type_tag p \<mapsto> [] @ [i]))
                     | Some inherited \<Rightarrow> (Some (JError ''TypeError''), m))))"

text \<open>
  Modelled from the spec: \<^verbatim>\<open>ErrorHandler.create(message)(error)\<close> of
  \<^verbatim>\<open>api/error-handler\<close>, the error-reporting collaborator \<^verbatim>\<open>report(message, error)\<close>.
\<close>

definition errorHandler :: "string \<Rightarrow> jsval \<Rightarrow> event list" where
  "errorHandler message err = [ErrorReported message err]"

text \<open>One turn of the loop of \<^verbatim>\<open>loadPlugins\<close>: the \<^verbatim>\<open>try\<close> block and its \<^verbatim>\<open>catch\<close>.\<close>

definition load_one :: "plugin \<Rightarrow> extension \<times> event list \<Rightarrow> extension \<times> event list" where
  "load_one p = (\<lambda>(ext, tr).
     case register p (regs ext) of
       (None, c) \<Rightarrow>
         (case record_extensionId p (extPlugins ext) of
            (None, m) \<Rightarrow>
              (ext\<lparr>regs := c, extPlugins := m\<rparr>, tr @ [RegisterCalled (name p)])
          | (Some err, m) \<Rightarrow>
              (ext\<lparr>regs := c, extPlugins := m\<rparr>,
               tr @ RegisterCalled (name p) # errorHandler (''Error loading plugin '' @ name p) err))
     | (Some err, c) \<Rightarrow>
         (ext\<lparr>regs := c\<rparr>,
          tr @ RegisterCalled (name p) # errorHandler (''Error loading plugin '' @ name p) err))"

definition loadPlugins :: "extension \<Rightarrow> extension \<times> event list" where
  "loadPlugins ext =
     (let queue = pluginsQueue ext;
          ext1 = ext\<lparr>pluginsQueue := [], loaded := (loaded ext \<or> True)\<rparr>
      in case fold load_one queue (ext1, []) of
           (ext2, tr) \<Rightarrow> (ext2, tr @ [UpdateExtPluginsInfo]))"

definition registerPlugin :: "plugin list \<Rightarrow> extension \<Rightarrow> extension \<times> event list" where
  "registerPlugin ps ext =
     (let ext1 = ext\<lparr>pluginsQueue := pluginsQueue ext @ ps\<rparr>
      in if loaded ext1 then loadPlugins ext1 else (ext1, []))"

text \<open>What each \<^verbatim>\<open>register\<close> call of a load pass over \<open>ps\<close> does, from registries \<open>c\<close> on.\<close>

fun register_outcomes :: "plugin list \<Rightarrow> registries \<Rightarrow> jsval option list" where
  "register_outcomes [] c = []"
| "register_outcomes (p # ps) c =
     (case register p c of (r, c') \<Rightarrow> r # register_outcomes ps c')"

fun is_register_call :: "event \<Rightarrow> bool" where
  "is_register_call (RegisterCalled n) = True"
| "is_register_call _ = False"

definition ids_under :: "(string \<rightharpoonup> string list) \<Rightarrow> string \<Rightarrow> string set" where
  "ids_under m tag = (case m tag of None \<Rightarrow> {} | Some ids \<Rightarrow> set ids)"


text \<open>The registries a load pass over \<open>ps\<close> leaves, from registries \<open>c\<close> on.\<close>

fun registries_after :: "plugin list \<Rightarrow> registries \<Rightarrow> registries" where
  "registries_after [] c = c"
| "registries_after (p # ps) c = registries_after ps (snd (register p c))"

text \<open>
  The events of one turn of the loop, from what its \<^verbatim>\<open>register\<close> call did, where the
  bookkeeping after it does not throw.
\<close>

definition turn_events :: "jsval option \<times> plugin \<Rightarrow> event list" where
  "turn_events = (\<lambda>(r, p). RegisterCalled (name p) #
      (case r of
         None \<Rightarrow> []
       | Some err \<Rightarrow> [ErrorReported (''Error loading plugin '' @ name p) err]))"

text \<open>The plugins of \<open>ps\<close> whose \<^verbatim>\<open>register\<close> call returned, given the outcomes \<open>rs\<close>.\<close>

definition returned :: "jsval option list \<Rightarrow> plugin list \<Rightarrow> plugin list" where
  "returned rs ps = map snd (filter (\<lambda>(r, p). r = None) (zip rs ps))"


section \<open>The results panel\<close>

text \<open>The fields of \<^verbatim>\<open>NSDatabase.IResult\<close> the panel's handlers read.\<close>

record IResult =
  requestId :: jsval
  resultId :: jsval
  baseQuery :: jsval
  connId :: jsval
  query :: jsval
  queryType :: jsval
  queryParams :: jsval
  pageSize :: jsval
  page :: jsval
  error :: jsval

record QueryResultsState =
  loading :: bool
  error :: "IResult option"
  resultTabs :: "IResult list"
  activeTab :: int

definition initialState :: QueryResultsState where
  "initialState = \<lparr>loading = True, error = None, resultTabs = [], activeTab = 0\<rparr>"

text \<open>
  A \<^verbatim>\<open>Partial<QueryResultsState>\<close> is the list of the properties an object literal
  sets, in the order written; spreading it over a state assigns them in that order.
\<close>

datatype change =
    Set_loading bool
  | Set_error "IResult option"
  | Set_resultTabs "IResult list"
  | Set_activeTab int

fun assign :: "change \<Rightarrow> QueryResultsState \<Rightarrow> QueryResultsState" where
  "assign (Set_loading b) s = s\<lparr>loading := b\<rparr>"
| "assign (Set_error e) s = s\<lparr>error := e\<rparr>"
| "assign (Set_resultTabs rs) s = s\<lparr>resultTabs := rs\<rparr>"
| "assign (Set_activeTab i) s = s\<lparr>activeTab := i\<rparr>"

text \<open>\<^verbatim>\<open>{ ...state, ...payload }\<close>; spreading \<^verbatim>\<open>undefined\<close> adds nothing.\<close>

definition spread :: "QueryResultsState \<Rightarrow> change list option \<Rightarrow> QueryResultsState" where
  "spread s pl = (case pl of None \<Rightarrow> s | Some cs \<Rightarrow> fold assign cs s)"

text \<open>
  A reducer action: its \<^verbatim>\<open>type\<close> with the payload the panel's callers give it.
  \<open>OTHER\<close> is any type outside the \<^verbatim>\<open>ACTION\<close> enum.
\<close>

datatype action =
    RESET
  | RESULTS_RECEIVED "change list option"
  | TOGGLE_TAB int
  | SET "change list option"
  | OTHER string

fun reducer :: "QueryResultsState \<Rightarrow> action \<Rightarrow> jsval + QueryResultsState" where
  "reducer s RESET = Inr initialState"
| "reducer s (RESULTS_RECEIVED pl) = Inr (spread s pl)"
| "reducer s (TOGGLE_TAB pl) = Inr (s\<lparr>activeTab := pl\<rparr>)"
| "reducer s (SET pl) = Inr (spread s pl)"
| "reducer s (OTHER t) = Inl (JError ''Error'')"

text \<open>\<^verbatim>\<open>IWebviewMessage\<close>, inbound and outbound, and what the panel logs.\<close>

record 'p IWebviewMessage =
  action :: jsval
  payload :: 'p

datatype in_payload = NoPayload | Results "IResult list" | OtherPayload jsval

datatype out_payload =
    Call string "jsval list option"
  | Snapshot QueryResultsState

datatype log_entry =
    MessageLog string jsval in_payload
  | Warn string jsval

text \<open>
  The panel: the reducer's current state (what \<^verbatim>\<open>stateRef.current\<close> and, between two
  updates, the rendered \<^verbatim>\<open>state\<close> hold), the actions handed to \<^verbatim>\<open>dispatch\<close>, the
  messages posted to the host, and the log.
\<close>

record panel =
  state :: QueryResultsState
  dispatched :: "action list"
  sent :: "out_payload IWebviewMessage list"
  logged :: "log_entry list"

text \<open>
  Modelled from the spec: \<^verbatim>\<open>dispatch\<close> of \<^verbatim>\<open>utils/useReducer.base\<close>. The state is
  mutated exclusively through the reducer; an error of the reducer leaves the state as
  it was and is thrown. Every action dispatched is recorded, also one that leaves the
  state equal to what it was (the reducer still builds a new state object from it).
\<close>

definition dispatch :: "action \<Rightarrow> panel \<Rightarrow> jsval option \<times> panel" where
  "dispatch a p =
     (case reducer (state p) a of
        Inl e \<Rightarrow> (Some e, p\<lparr>dispatched := dispatched p @ [a]\<rparr>)
      | Inr s \<Rightarrow> (None, p\<lparr>state := s, dispatched := dispatched p @ [a]\<rparr>))"

text \<open>
  Modelled from the spec: \<^verbatim>\<open>sendMessage(action, payload)\<close> of \<^verbatim>\<open>lib/messages\<close>, which
  posts one message with that action and payload to the host.
\<close>

definition sendMessage :: "string \<Rightarrow> out_payload \<Rightarrow> panel \<Rightarrow> panel" where
  "sendMessage a pl p = p\<lparr>sent := sent p @ [\<lparr>action = JStr a, payload = pl\<rparr>]\<rparr>"

text \<open>\<^verbatim>\<open>xs[i]\<close>: \<^verbatim>\<open>undefined\<close> outside the array.\<close>

definition nth_js :: "'a list \<Rightarrow> int \<Rightarrow> 'a option" where
  "nth_js xs i = (if 0 \<le> i \<and> i < int (length xs) then Some (xs ! nat i) else None)"

definition getCurrentQueryOptions :: "IResult \<Rightarrow> (string \<times> jsval) list" where
  "getCurrentQueryOptions activeResult =
     [(''requestId'', requestId activeResult),
      (''resultId'', resultId activeResult),
      (''baseQuery'', baseQuery activeResult),
      (''connId'', connId activeResult)]"

definition getCurrentResult :: "QueryResultsState option \<Rightarrow> QueryResultsState \<Rightarrow> IResult option" where
  "getCurrentResult s st =
     (let s1 = (case s of None \<Rightarrow> st | Some s' \<Rightarrow> s')
      in nth_js (resultTabs s1) (activeTab s1))"

definition set' :: "change list \<Rightarrow> panel \<Rightarrow> jsval option \<times> panel" where
  "set' pl p = dispatch (SET (Some pl)) p"

definition resetRequest :: "panel \<Rightarrow> jsval option \<times> panel" where
  "resetRequest p = dispatch (RESULTS_RECEIVED None) p"

definition toggleTab :: "int \<Rightarrow> panel \<Rightarrow> jsval option \<times> panel" where
  "toggleTab v p = dispatch (TOGGLE_TAB v) p"

definition resultsReceived :: "change list \<Rightarrow> panel \<Rightarrow> jsval option \<times> panel" where
  "resultsReceived changes p = dispatch (RESULTS_RECEIVED (Some changes)) p"

definition focusMessages :: "string \<Rightarrow> panel \<Rightarrow> panel" where
  "focusMessages ns p = sendMessage ''call'' (Call (ns @ ''/consoleMessages.focus'') None) p"

text \<open>
  \<^verbatim>\<open>MenuActions\<close> of \<^verbatim>\<open>./constants\<close> is a parameter: the values of its members and
  the member \<^verbatim>\<open>SaveJSONOption\<close>.
\<close>

record MenuActions =
  MenuActions_values :: "jsval list"
  SaveJSONOption :: jsval

definition exportResults :: "string \<Rightarrow> MenuActions \<Rightarrow> jsval \<Rightarrow> panel \<Rightarrow> jsval option \<times> panel" where
  "exportResults ns menu choice p =
     (case getCurrentResult (Some (state p)) (state p) of
        None \<Rightarrow> (None, p)
      | Some activeResult \<Rightarrow>
          (None, sendMessage ''call''
             (Call (ns @ ''.saveResults'')
                (Some [JObj (getCurrentQueryOptions activeResult @
                   [(''fileType'',
                     if choice \<in> set (MenuActions_values menu)
                     then (if choice = SaveJSONOption menu then JStr ''json'' else JStr ''csv'')
                     else JUndefined)])])) p))"

definition reRunQuery :: "string \<Rightarrow> panel \<Rightarrow> jsval option \<times> panel" where
  "reRunQuery ns p =
     (case getCurrentResult (Some (state p)) (state p) of
        None \<Rightarrow> (None, p)
      | Some activeResult \<Rightarrow>
          if truthy (queryType activeResult) then
            set' [Set_loading True]
              (sendMessage ''call''
                 (Call (ns @ ''.'' @ to_string (queryType activeResult))
                    (Some [queryParams activeResult,
                           JObj (getCurrentQueryOptions activeResult @
                             [(''page'', page activeResult),
                              (''pageSize'', js_or (pageSize activeResult) (JNum 50))])])) p)
          else
            set' [Set_loading True]
              (sendMessage ''call''
                 (Call (ns @ ''.executeQuery'')
                    (Some [query activeResult, JObj (getCurrentQueryOptions activeResult)])) p))"

text \<open>
  \<^verbatim>\<open>changePage\<close> reads the rendered \<^verbatim>\<open>state\<close>, which the \<^verbatim>\<open>set\<close> call before it has not
  changed yet. Reading \<^verbatim>\<open>queryType\<close> of an absent tab throws a \<^verbatim>\<open>TypeError\<close>.
\<close>

definition changePage :: "string \<Rightarrow> int \<Rightarrow> panel \<Rightarrow> jsval option \<times> panel" where
  "changePage ns pg p =
     (case set' [Set_loading True] p of
        (Some e, p1) \<Rightarrow> (Some e, p1)
      | (None, p1) \<Rightarrow>
          (case nth_js (resultTabs (state p)) (activeTab (state p)) of
             None \<Rightarrow> (Some (JError ''TypeError''), p1)
           | Some activeResult \<Rightarrow>
               (None, sendMessage ''call''
                  (Call (ns @ ''.'' @ to_string (queryType activeResult))
                     (Some [queryParams activeResult,
                            JObj [(''page'', JNum pg),
                                  (''pageSize'', js_or (pageSize activeResult) (JNum 50)),
                                  (''requestId'', requestId activeResult)]])) p1)))"

text \<open>\<^verbatim>\<open>payload || 'NO_PAYLOAD'\<close>; an array is truthy.\<close>

fun payload_or_placeholder :: "in_payload \<Rightarrow> in_payload" where
  "payload_or_placeholder NoPayload = OtherPayload (JStr ''NO_PAYLOAD'')"
| "payload_or_placeholder (Results rs) = Results rs"
| "payload_or_placeholder (OtherPayload v) =
     (if truthy v then OtherPayload v else OtherPayload (JStr ''NO_PAYLOAD''))"

definition messagesHandler :: "in_payload IWebviewMessage \<Rightarrow> panel \<Rightarrow> jsval option \<times> panel" where
  "messagesHandler msg p =
     (if \<not> truthy (action msg) then (None, p)
      else
        (let p1 = p\<lparr>logged := logged p @
                    [MessageLog ''received => %s %O'' (action msg) (payload_or_placeholder (payload msg))]\<rparr>
         in if action msg = JStr ''queryResults'' then
              (case payload msg of
                 Results rs \<Rightarrow>
                   resultsReceived
                     [Set_resultTabs rs, Set_activeTab 0, Set_loading False,
                      Set_error (find (\<lambda>r. truthy (IResult.error r)) rs)] p1
               | _ \<Rightarrow> (Some (JError ''TypeError''), p1))
            else if action msg = JStr ''reset'' then resetRequest p1
            else if action msg = JStr ''getState'' then
              (None, sendMessage ''receivedState'' (Snapshot (state p1)) p1)
            else (None, p1\<lparr>logged := logged p1 @ [Warn ''No handler set for %s'' (action msg)]\<rparr>)))"





section \<open>Helper notions and example inputs\<close>

text \<open>The trace of a command run up to and including the call of the handler.\<close>

definition until_handler :: "string \<Rightarrow> bool \<Rightarrow> registries \<Rightarrow> string \<Rightarrow> jsval list \<Rightarrow> event list" where
  "until_handler ns dev ext cmd as =
     [if dev then LogInfo (''EXECUTING => '' @ ns @ ''.'' @ cmd @ '' %O'') (Some as)
      else LogInfo (''EXECUTING => '' @ ns @ ''.'' @ cmd) None]
       @ WillRunFired \<lparr>command = cmd, args = as\<rparr>
       # fire (onWillRunCommandHandler ext) \<lparr>command = cmd, args = as\<rparr>
       @ [HandlerCalled as]"

definition no_hooks :: registries where
  "no_hooks = \<lparr>willRunCommandHooks = Map.empty, didRunCommandSuccessfullyHooks = Map.empty,
               registered = []\<rparr>"

definition returning_hook :: "string \<Rightarrow> 'e hook" where
  "returning_hook n = Hook n (\<lambda>evt. None)"

definition throwing_hook :: "string \<Rightarrow> jsval \<Rightarrow> 'e hook" where
  "throwing_hook n err = Hook n (\<lambda>evt. Some err)"

definition constant_handler :: "outcome \<Rightarrow> handler" where
  "constant_handler out = (\<lambda>as. out)"

text \<open>A promise: \<^verbatim>\<open>then\<close> and \<^verbatim>\<open>catch\<close> are functions, and it settles as given.\<close>

definition promise :: "settlement \<Rightarrow> jsval" where
  "promise s = JObj [(''then'', JFun ''then'' s), (''catch'', JFun ''catch'' s)]"

text \<open>Two before-hooks and one after-hook on the command \<^verbatim>\<open>c\<close>, registered in this order.\<close>

definition hooked :: registries where
  "hooked =
     snd (addAfterCommandSuccessHook ''c'' (returning_hook ''a1'')
       (snd (addBeforeCommandHook ''c'' (returning_hook ''b2'')
         (snd (addBeforeCommandHook ''c'' (returning_hook ''b1'') no_hooks)))))"

text \<open>A before-hook and an after-hook registered on the command with the empty name.\<close>

definition hooked_unnamed :: registries where
  "hooked_unnamed =
     snd (addAfterCommandSuccessHook [] (returning_hook ''a1'')
       (snd (addBeforeCommandHook [] (returning_hook ''b1'') no_hooks)))"

text \<open>A before-hook that throws, registered ahead of one that returns.\<close>

definition hooked_throwing :: registries where
  "hooked_throwing =
     snd (addBeforeCommandHook ''c'' (returning_hook ''b2'')
       (snd (addBeforeCommandHook ''c'' (throwing_hook ''b1'' (JError ''Error'')) no_hooks)))"

text \<open>A plugin that registers a before-hook, and one whose \<^verbatim>\<open>register\<close> throws.\<close>

definition good_plugin :: "string \<Rightarrow> string option \<Rightarrow> string option \<Rightarrow> plugin" where
  "good_plugin n i t =
     \<lparr>name = n, extensionId = i, type = t,
      register = (\<lambda>c. addBeforeCommandHook ''c'' (returning_hook n) c)\<rparr>"

definition bad_plugin :: "string \<Rightarrow> string option \<Rightarrow> string option \<Rightarrow> plugin" where
  "bad_plugin n i t =
     \<lparr>name = n, extensionId = i, type = t,
      register = (\<lambda>c. (Some (JError ''Error''), c))\<rparr>"

definition example_extension :: extension where
  "example_extension =
     \<lparr>pluginsQueue = [good_plugin ''first'' (Some ''ext.first'') None,
                      bad_plugin ''broken'' (Some ''ext.broken'') None,
                      good_plugin ''last'' (Some ''ext.last'') (Some ''driver'')],
      extPlugins = Map.empty, loaded = False, regs = no_hooks\<rparr>"

text \<open>
  The same queue with, in the last place, a plugin whose type tag is \<^verbatim>\<open>constructor\<close>.
\<close>

definition example_extension_odd :: extension where
  "example_extension_odd =
     \<lparr>pluginsQueue = [good_plugin ''first'' (Some ''ext.first'') None,
                      bad_plugin ''broken'' (Some ''ext.broken'') None,
                      good_plugin ''odd'' (Some ''ext.odd'') (Some ''constructor'')],
      extPlugins = Map.empty, loaded = False, regs = no_hooks\<rparr>"

definition example_result :: "jsval \<Rightarrow> IResult" where
  "example_result ps =
     \<lparr>requestId = JNum 7, resultId = JStr ''r1'', baseQuery = JStr ''select 1'',
      connId = JStr ''conn'', query = JStr ''select 1'', queryType = JStr ''select'',
      queryParams = JObj [(''q'', JStr ''a'')], pageSize = ps, page = JNum 0,
      error = JUndefined\<rparr>"

text \<open>A panel showing one result whose \<^verbatim>\<open>pageSize\<close> is \<open>ps\<close>, not loading.\<close>

definition example_panel :: "jsval \<Rightarrow> panel" where
  "example_panel ps =
     \<lparr>state = \<lparr>loading = False, error = None, resultTabs = [example_result ps], activeTab = 0\<rparr>,
      dispatched = [], sent = [], logged = []\<rparr>"


definition example_menu :: MenuActions where
  "example_menu =
     \<lparr>MenuActions_values = [JStr ''ReRunQueryOption'', JStr ''SaveCSVOption'', JStr ''SaveJSONOption''],
      SaveJSONOption = JStr ''SaveJSONOption''\<rparr>"

section \<open>Properties of the command pipeline\<close>

subsection \<open>Values and hook lists\<close>

lemma await_Rejects_pending: "await r = Rejects e \<Longrightarrow> looks_pending r = Inr True"
  by (cases r) (auto simp: looks_pending_def split: option.splits jsval.splits)

lemma await_Pending_pending: "await r = Pending \<Longrightarrow> looks_pending r = Inr True"
  by (cases r) (auto simp: looks_pending_def split: option.splits jsval.splits)

lemma await_not_pending: "looks_pending r = Inr False \<Longrightarrow> await r = Fulfils r"
  by (cases r) (auto simp: looks_pending_def split: option.splits jsval.splits if_splits)

lemma looks_pending_non_null: "r \<noteq> JNull \<Longrightarrow> \<exists>b. looks_pending r = Inr b"
  by (cases r) (auto simp: looks_pending_def)

lemma looks_pending_null: "looks_pending JNull = Inl (JError ''TypeError'')"
  by (simp add: looks_pending_def)

text \<open>Hooks are appended: the list of a command keeps the order of registration.\<close>

lemma hooks_of_addHook_same:
  "fst (addHook dict cmd h) = None \<Longrightarrow>
   hooks_of (snd (addHook dict cmd h)) cmd = hooks_of dict cmd @ [h]"
  by (simp add: hooks_of_def addHook_def split: option.splits)

lemma hooks_of_addHook_other:
  "cmd' \<noteq> cmd \<Longrightarrow> hooks_of (snd (addHook dict cmd h)) cmd' = hooks_of dict cmd'"
  by (simp add: hooks_of_def addHook_def split: option.splits)

text \<open>
  \<^verbatim>\<open>addHook\<close> throws exactly under the names \<^verbatim>\<open>Object.prototype\<close> answers for which
  the dictionary has no list of its own, and then leaves the dictionary as it was.
\<close>

lemma addHook_throws:
  "fst (addHook dict cmd h) \<noteq> None \<longleftrightarrow> dict cmd = None \<and> object_prototype_length cmd \<noteq> None"
  by (simp add: addHook_def split: option.splits)

lemma addHook_thrown_unchanged:
  "fst (addHook dict cmd h) = Some e \<Longrightarrow> snd (addHook dict cmd h) = dict"
  by (simp add: addHook_def split: option.splits)

lemma forEach_all_return:
  "\<forall>h\<in>set hs. hook_body h evt = None \<Longrightarrow>
   forEach hs called evt = (map (\<lambda>h. called (hook_name h) evt) hs, None)"
  by (induction hs) auto

lemma forEach_calls_only:
  "(\<And>n e. P (called n e)) \<Longrightarrow> \<forall>x\<in>set (fst (forEach hs called evt)). P x"
  by (induction hs) (auto split: option.splits prod.splits)

text \<open>A hook that throws ends the iteration: the hooks registered after it are not called.\<close>

lemma forEach_stops_at_throw:
  "hook_body h evt = Some err \<Longrightarrow>
   forEach (h # hs) called evt = ([called (hook_name h) evt], Some err)"
  by simp

lemma fire_will_run_no_success:
  "\<forall>x\<in>set (fire (onWillRunCommandHandler ext) evt).
     \<not> is_after_call x \<and> \<not> is_did_run x \<and> \<not> is_handler_call x \<and> x \<noteq> Suspended"
  using forEach_calls_only[of "\<lambda>x. \<not> is_after_call x \<and> \<not> is_did_run x \<and> \<not> is_handler_call x \<and> x \<noteq> Suspended"
      BeforeHookCalled "the (willRunCommandHooks ext (command evt))" evt]
  by (auto simp: fire_def onWillRunCommandHandler_def split: option.splits prod.splits if_splits)

lemma fire_did_run_same_turn:
  "\<forall>x\<in>set (fire (onDidRunCommandSuccessfullyHandler ext) evt). x \<noteq> Suspended"
  using forEach_calls_only[of "\<lambda>x. x \<noteq> Suspended"
      AfterHookCalled "the (didRunCommandSuccessfullyHooks ext (command evt))" evt]
  by (auto simp: fire_def onDidRunCommandSuccessfullyHandler_def split: option.splits prod.splits if_splits)

lemma fire_will_run_normal:
  assumes "cmd \<noteq> []"
    and "\<forall>b\<in>set (hooks_of (willRunCommandHooks ext) cmd). hook_body b \<lparr>command = cmd, args = as\<rparr> = None"
  shows "\<exists>dbg. fire (onWillRunCommandHandler ext) \<lparr>command = cmd, args = as\<rparr>
           = dbg @ map (\<lambda>b. BeforeHookCalled (hook_name b) \<lparr>command = cmd, args = as\<rparr>)
                       (hooks_of (willRunCommandHooks ext) cmd)
         \<and> (\<forall>x\<in>set dbg. \<not> is_call x)"
proof (cases "willRunCommandHooks ext cmd")
  case None
  then show ?thesis using assms
    by (simp add: fire_def onWillRunCommandHandler_def hooks_of_def is_call_def
          split: option.splits)
next
  case (Some hs)
  then have "forEach hs BeforeHookCalled \<lparr>command = cmd, args = as\<rparr>
     = (map (\<lambda>b. BeforeHookCalled (hook_name b) \<lparr>command = cmd, args = as\<rparr>) hs, None)"
    using assms(2) by (intro forEach_all_return) (simp add: hooks_of_def)
  with Some assms(1) show ?thesis
    by (cases hs) (simp_all add: fire_def onWillRunCommandHandler_def hooks_of_def is_call_def)
qed

lemma fire_did_run_normal:
  assumes "cmd \<noteq> []"
    and "\<forall>a\<in>set (hooks_of (didRunCommandSuccessfullyHooks ext) cmd).
           hook_body a \<lparr>command = cmd, args = as, result = v\<rparr> = None"
  shows "\<exists>dbg. fire (onDidRunCommandSuccessfullyHandler ext) \<lparr>command = cmd, args = as, result = v\<rparr>
           = dbg @ map (\<lambda>a. AfterHookCalled (hook_name a) \<lparr>command = cmd, args = as, result = v\<rparr>)
                       (hooks_of (didRunCommandSuccessfullyHooks ext) cmd)
         \<and> (\<forall>x\<in>set dbg. \<not> is_call x)"
proof (cases "didRunCommandSuccessfullyHooks ext cmd")
  case None
  then show ?thesis using assms
    by (simp add: fire_def onDidRunCommandSuccessfullyHandler_def hooks_of_def is_call_def
          split: option.splits)
next
  case (Some hs)
  then have "forEach hs AfterHookCalled \<lparr>command = cmd, args = as, result = v\<rparr>
     = (map (\<lambda>a. AfterHookCalled (hook_name a) \<lparr>command = cmd, args = as, result = v\<rparr>) hs, None)"
    using assms(2) by (intro forEach_all_return) (simp add: hooks_of_def)
  with Some assms(1) show ?thesis
    by (cases hs) (simp_all add: fire_def onDidRunCommandSuccessfullyHandler_def hooks_of_def is_call_def)
qed

subsection \<open>The run of a command, case by case\<close>

lemma decorated_Throws:
  "h as = Throws e \<Longrightarrow>
   decorated ns dev ext cmd h as = (Rejects e, until_handler ns dev ext cmd as)"
  by (simp add: decorated_def until_handler_def)

lemma decorated_Null:
  "h as = Returns JNull \<Longrightarrow>
   decorated ns dev ext cmd h as = (Rejects (JError ''TypeError''), until_handler ns dev ext cmd as)"
  by (simp add: decorated_def until_handler_def looks_pending_null)

lemma decorated_Rejects:
  "h as = Returns r \<Longrightarrow> await r = Rejects e \<Longrightarrow>
   decorated ns dev ext cmd h as = (Rejects e, until_handler ns dev ext cmd as @ [Suspended])"
  by (simp add: decorated_def until_handler_def await_Rejects_pending)

lemma decorated_Pending:
  "h as = Returns r \<Longrightarrow> await r = Pending \<Longrightarrow>
   decorated ns dev ext cmd h as = (Pending, until_handler ns dev ext cmd as @ [Suspended])"
  by (simp add: decorated_def until_handler_def await_Pending_pending)

lemma decorated_Fulfils:
  "h as = Returns r \<Longrightarrow> looks_pending r = Inr b \<Longrightarrow> await r = Fulfils v \<Longrightarrow>
   decorated ns dev ext cmd h as =
     (Fulfils v, until_handler ns dev ext cmd as @ (if b then [Suspended] else [])
        @ DidRunFired \<lparr>command = cmd, args = as, result = v\<rparr>
        # fire (onDidRunCommandSuccessfullyHandler ext) \<lparr>command = cmd, args = as, result = v\<rparr>)"
  using await_not_pending[of r]
  by (cases b) (simp_all add: decorated_def until_handler_def)

lemma until_handler_no_success:
  "\<forall>x\<in>set (until_handler ns dev ext cmd as). \<not> is_after_call x \<and> \<not> is_did_run x \<and> x \<noteq> Suspended"
  using fire_will_run_no_success[of ext "\<lparr>command = cmd, args = as\<rparr>"]
  by (auto simp: until_handler_def)

text \<open>
  Where the handler returns a value other than \<^verbatim>\<open>null\<close> that is not pending, or that
  fulfils when awaited, the success event carries that value and the caller gets it; a
  value that does not look pending is delivered without giving up the turn.
\<close>

lemma success_event_emitted:
  assumes "h as = Returns r" and "r \<noteq> JNull" and "await r = Fulfils v"
  shows "fst (decorated ns dev ext cmd h as) = Fulfils v
       \<and> DidRunFired \<lparr>command = cmd, args = as, result = v\<rparr> \<in> set (snd (decorated ns dev ext cmd h as))"
proof -
  obtain b where "looks_pending r = Inr b"
    using assms(2) looks_pending_non_null by blast
  with assms show ?thesis by (simp add: decorated_Fulfils)
qed

lemma plain_result_same_turn:
  assumes "h as = Returns r" and "looks_pending r = Inr False"
  shows "fst (decorated ns dev ext cmd h as) = Fulfils r
       \<and> DidRunFired \<lparr>command = cmd, args = as, result = r\<rparr> \<in> set (snd (decorated ns dev ext cmd h as))
       \<and> Suspended \<notin> set (snd (decorated ns dev ext cmd h as))"
proof -
  have run: "decorated ns dev ext cmd h as =
     (Fulfils r, until_handler ns dev ext cmd as @ []
        @ DidRunFired \<lparr>command = cmd, args = as, result = r\<rparr>
        # fire (onDidRunCommandSuccessfullyHandler ext) \<lparr>command = cmd, args = as, result = r\<rparr>)"
    using decorated_Fulfils[of h as r False r ns dev ext cmd] assms await_not_pending[OF assms(2)]
    by simp
  show ?thesis
    using until_handler_no_success[of ns dev ext cmd as]
      fire_did_run_same_turn[of ext "\<lparr>command = cmd, args = as, result = r\<rparr>"]
    by (auto simp: run)
qed

text \<open>
  For the command with the empty name the two listeners return at their first line,
  whatever the dictionaries hold.
\<close>

lemma fire_unnamed:
  "fire (onWillRunCommandHandler ext) \<lparr>command = [], args = as\<rparr> = []"
  "fire (onDidRunCommandSuccessfullyHandler ext) \<lparr>command = [], args = as, result = v\<rparr> = []"
  by (simp_all add: fire_def onWillRunCommandHandler_def onDidRunCommandSuccessfullyHandler_def)

lemma until_handler_unnamed:
  "filter is_call (until_handler ns dev ext [] as) = [HandlerCalled as]"
  by (simp add: until_handler_def fire_unnamed is_call_def)

lemma unnamed_command_calls:
  "filter is_call (snd (decorated ns dev ext [] h as)) = [HandlerCalled as]"
proof (cases "h as")
  case (Throws e)
  then show ?thesis by (simp add: decorated_Throws until_handler_unnamed)
next
  case (Returns r)
  show ?thesis
  proof (cases "r = JNull")
    case True
    with Returns show ?thesis by (simp add: decorated_Null until_handler_unnamed)
  next
    case False
    then obtain b where b: "looks_pending r = Inr b"
      using looks_pending_non_null by blast
    show ?thesis
    proof (cases "await r")
      case (Fulfils v)
      with Returns b show ?thesis
        by (simp add: decorated_Fulfils until_handler_unnamed fire_unnamed is_call_def)
    next
      case (Rejects e)
      with Returns show ?thesis
        by (simp add: decorated_Rejects until_handler_unnamed is_call_def)
    next
      case Pending
      with Returns show ?thesis
        by (simp add: decorated_Pending until_handler_unnamed is_call_def)
    qed
  qed
qed

text \<open>
  A run succeeds with \<open>v\<close> exactly when the handler returned a value other than
  \<^verbatim>\<open>null\<close> whose awaiting hands back \<open>v\<close>; a value that does not look pending is its
  own \<open>v\<close>.
\<close>

lemma run_fulfils_iff:
  "fst (decorated ns dev ext cmd h as) = Fulfils v
     \<longleftrightarrow> (\<exists>r. h as = Returns r \<and> r \<noteq> JNull \<and> await r = Fulfils v)"
proof (cases "h as")
  case (Throws e)
  then show ?thesis by (simp add: decorated_Throws)
next
  case (Returns r)
  show ?thesis
  proof (cases "r = JNull")
    case True
    with Returns show ?thesis by (simp add: decorated_Null)
  next
    case False
    then obtain b where b: "looks_pending r = Inr b"
      using looks_pending_non_null by blast
    show ?thesis
    proof (cases "await r")
      case (Fulfils w)
      with Returns b False show ?thesis by (simp add: decorated_Fulfils)
    next
      case (Rejects e)
      with Returns False show ?thesis by (simp add: decorated_Rejects)
    next
      case Pending
      with Returns False show ?thesis by (simp add: decorated_Pending)
    qed
  qed
qed

subsection \<open>Hooks around the handler\<close>

text \<open>
  The trace of the run of a command with a non-empty name whose hooks return normally.
\<close>

lemma named_command_trace:
  assumes "cmd \<noteq> []"
    and "\<forall>b\<in>set (hooks_of (willRunCommandHooks ext) cmd).
           hook_body b \<lparr>command = cmd, args = as\<rparr> = None"
    and "\<forall>a\<in>set (hooks_of (didRunCommandSuccessfullyHooks ext) cmd).
           \<forall>v. hook_body a \<lparr>command = cmd, args = as, result = v\<rparr> = None"
  shows "\<exists>pre post.
      snd (decorated ns dev ext cmd h as)
        = pre @ map (\<lambda>b. BeforeHookCalled (hook_name b) \<lparr>command = cmd, args = as\<rparr>)
                    (hooks_of (willRunCommandHooks ext) cmd)
              @ [HandlerCalled as] @ post
    \<and> (\<forall>x\<in>set pre. \<not> is_call x)
    \<and> (\<forall>x\<in>set post. \<not> is_before_call x \<and> \<not> is_handler_call x)
    \<and> (\<forall>r v. h as = Returns r \<and> r \<noteq> JNull \<and> await r = Fulfils v \<longrightarrow>
          (\<exists>mid. post = mid @ map (\<lambda>a. AfterHookCalled (hook_name a)
                                        \<lparr>command = cmd, args = as, result = v\<rparr>)
                                  (hooks_of (didRunCommandSuccessfullyHooks ext) cmd)
               \<and> (\<forall>x\<in>set mid. \<not> is_call x)
               \<and> DidRunFired \<lparr>command = cmd, args = as, result = v\<rparr> \<in> set mid))
    \<and> ((\<exists>e. h as = Throws e \<or> (\<exists>r. h as = Returns r \<and> await r = Rejects e)) \<longrightarrow>
          (\<forall>x\<in>set post. \<not> is_after_call x))"
proof -
  let ?ev = "\<lparr>command = cmd, args = as\<rparr>"
  let ?B = "map (\<lambda>b. BeforeHookCalled (hook_name b) ?ev) (hooks_of (willRunCommandHooks ext) cmd)"
  obtain dbg where dbg: "fire (onWillRunCommandHandler ext) ?ev = dbg @ ?B"
    and dbg_quiet: "\<forall>x\<in>set dbg. \<not> is_call x"
    using fire_will_run_normal[OF assms(1), of ext as] assms(2) by blast
  define pre where "pre = (if dev then LogInfo (''EXECUTING => '' @ ns @ ''.'' @ cmd @ '' %O'') (Some as)
                           else LogInfo (''EXECUTING => '' @ ns @ ''.'' @ cmd) None)
                          # WillRunFired ?ev # dbg"
  have start: "until_handler ns dev ext cmd as = pre @ ?B @ [HandlerCalled as]"
    by (simp add: until_handler_def dbg pre_def)
  have pre_quiet: "\<forall>x\<in>set pre. \<not> is_call x"
    using dbg_quiet by (simp add: pre_def is_call_def)
  show ?thesis
  proof (cases "h as")
    case (Throws e)
    then have "snd (decorated ns dev ext cmd h as) = pre @ ?B @ [HandlerCalled as] @ []"
      by (simp add: decorated_Throws start)
    then show ?thesis using pre_quiet Throws
      by (intro exI[of _ pre] exI[of _ "[]"]) simp
  next
    case (Returns r)
    show ?thesis
    proof (cases "r = JNull")
      case True
      have "snd (decorated ns dev ext cmd h as) = pre @ ?B @ [HandlerCalled as] @ []"
        using Returns True by (simp add: decorated_Null start)
      then show ?thesis using pre_quiet Returns True
        by (intro exI[of _ pre] exI[of _ "[]"]) simp
    next
      case False
      then obtain b where b: "looks_pending r = Inr b"
        using looks_pending_non_null by blast
      show ?thesis
      proof (cases "await r")
        case (Fulfils v)
        let ?sev = "\<lparr>command = cmd, args = as, result = v\<rparr>"
        let ?A = "map (\<lambda>a. AfterHookCalled (hook_name a) ?sev)
                      (hooks_of (didRunCommandSuccessfullyHooks ext) cmd)"
        obtain dbg2 where dbg2: "fire (onDidRunCommandSuccessfullyHandler ext) ?sev = dbg2 @ ?A"
          and dbg2_quiet: "\<forall>x\<in>set dbg2. \<not> is_call x"
          using fire_did_run_normal[OF assms(1), of ext as v] assms(3) by blast
        define mid where "mid = (if b then [Suspended] else []) @ DidRunFired ?sev # dbg2"
        have mid_quiet: "\<forall>x\<in>set mid. \<not> is_call x"
          using dbg2_quiet by (auto simp: mid_def is_call_def)
        have tr: "snd (decorated ns dev ext cmd h as) = pre @ ?B @ [HandlerCalled as] @ (mid @ ?A)"
          using Returns b Fulfils by (simp add: decorated_Fulfils start dbg2 mid_def)
        have post_ok: "\<forall>x\<in>set (mid @ ?A). \<not> is_before_call x \<and> \<not> is_handler_call x"
          using mid_quiet by (auto simp: is_call_def)
        have mem: "DidRunFired ?sev \<in> set mid" by (simp add: mid_def)
        show ?thesis using tr pre_quiet post_ok mid_quiet mem Returns Fulfils
          by (intro exI[of _ pre] exI[of _ "mid @ ?A"]) auto
      next
        case (Rejects e)
        have "snd (decorated ns dev ext cmd h as) = pre @ ?B @ [HandlerCalled as] @ [Suspended]"
          using Returns Rejects by (simp add: decorated_Rejects start)
        then show ?thesis using pre_quiet Returns Rejects
          by (intro exI[of _ pre] exI[of _ "[Suspended]"]) simp
      next
        case Pending
        have "snd (decorated ns dev ext cmd h as) = pre @ ?B @ [HandlerCalled as] @ [Suspended]"
          using Returns Pending by (simp add: decorated_Pending start)
        then show ?thesis using pre_quiet Returns Pending
          by (intro exI[of _ pre] exI[of _ "[Suspended]"]) simp
      qed
    qed
  qed
qed


lemma hooked_lists:
  "hooks_of (willRunCommandHooks hooked) ''c'' = [returning_hook ''b1'', returning_hook ''b2'']"
  "hooks_of (didRunCommandSuccessfullyHooks hooked) ''c'' = [returning_hook ''a1'']"
  by (simp_all add: hooked_def addAfterCommandSuccessHook_def addBeforeCommandHook_def
        addHook_def object_prototype_length_def hooks_of_def no_hooks_def)

text \<open>
  C1, as the code has it. For every command with a non-empty name whose registered hooks
  return normally, one run calls each of the N before-hooks exactly once, in registration
  order, and all of them before the handler: the trace is some events that are no calls,
  then the N before-hook calls, then the call of the handler, then the rest, which holds
  no before-hook call and no handler call. If the handler returns a value other than
  \<^verbatim>\<open>null\<close> whose awaiting hands back \<open>v\<close> (a value that is not pending is its own
  \<open>v\<close>), the rest ends with the M after-hook calls, each once, in registration order,
  on the event carrying \<open>v\<close>, after the success event with \<open>v\<close> has been fired. If the
  handler throws, or its pending result rejects, the rest holds no after-hook call.
  For the command with the empty name, whatever the registries hold and whatever the
  handler does, the only call of the run is the call of the handler: no before-hook and no
  after-hook is called.
\<close>

theorem hooks_run_in_order:
  "(cmd \<noteq> []
    \<and> (\<forall>b\<in>set (hooks_of (willRunCommandHooks ext) cmd).
           hook_body b \<lparr>command = cmd, args = as\<rparr> = None)
    \<and> (\<forall>a\<in>set (hooks_of (didRunCommandSuccessfullyHooks ext) cmd).
           \<forall>v. hook_body a \<lparr>command = cmd, args = as, result = v\<rparr> = None)
    \<longrightarrow>
    (\<exists>pre post.
      snd (decorated ns dev ext cmd h as)
        = pre @ map (\<lambda>b. BeforeHookCalled (hook_name b) \<lparr>command = cmd, args = as\<rparr>)
                    (hooks_of (willRunCommandHooks ext) cmd)
              @ [HandlerCalled as] @ post
    \<and> (\<forall>x\<in>set pre. \<not> is_call x)
    \<and> (\<forall>x\<in>set post. \<not> is_before_call x \<and> \<not> is_handler_call x)
    \<and> (\<forall>r v. h as = Returns r \<and> r \<noteq> JNull \<and> await r = Fulfils v \<longrightarrow>
          (\<exists>mid. post = mid @ map (\<lambda>a. AfterHookCalled (hook_name a)
                                        \<lparr>command = cmd, args = as, result = v\<rparr>)
                                  (hooks_of (didRunCommandSuccessfullyHooks ext) cmd)
               \<and> (\<forall>x\<in>set mid. \<not> is_call x)
               \<and> DidRunFired \<lparr>command = cmd, args = as, result = v\<rparr> \<in> set mid))
    \<and> ((\<exists>e. h as = Throws e \<or> (\<exists>r. h as = Returns r \<and> await r = Rejects e)) \<longrightarrow>
          (\<forall>x\<in>set post. \<not> is_after_call x))))
   \<and> filter is_call (snd (decorated ns dev ext [] h as)) = [HandlerCalled as]"
  using named_command_trace[of cmd ext as ns dev h] unnamed_command_calls[of ns dev ext h as]
  by blast

text \<open>
  The theorem at the command \<^verbatim>\<open>c\<close> with before-hooks \<^verbatim>\<open>b1\<close>, \<^verbatim>\<open>b2\<close> and after-hook
  \<^verbatim>\<open>a1\<close>, run on a handler that returns 1, and at the command with the empty name, on
  which a before-hook and an after-hook are registered.
\<close>

theorem hooks_run_in_order_witness:
  "(\<exists>pre post.
      snd (decorated ''sqltools'' False hooked ''c'' (constant_handler (Returns (JNum 1))) [])
        = pre @ [BeforeHookCalled ''b1'' \<lparr>command = ''c'', args = []\<rparr>,
                 BeforeHookCalled ''b2'' \<lparr>command = ''c'', args = []\<rparr>]
              @ [HandlerCalled []] @ post
    \<and> (\<forall>x\<in>set pre. \<not> is_call x)
    \<and> (\<forall>x\<in>set post. \<not> is_before_call x \<and> \<not> is_handler_call x)
    \<and> (\<exists>mid. post = mid @ [AfterHookCalled ''a1'' \<lparr>command = ''c'', args = [], result = JNum 1\<rparr>]
           \<and> (\<forall>x\<in>set mid. \<not> is_call x)
           \<and> DidRunFired \<lparr>command = ''c'', args = [], result = JNum 1\<rparr> \<in> set mid))
   \<and> filter is_call
        (snd (decorated ''sqltools'' False hooked_unnamed [] (constant_handler (Returns (JNum 1))) []))
      = [HandlerCalled []]"
proof -
  have nonempty: "''c'' \<noteq> []" by simp
  have before: "\<forall>b\<in>set (hooks_of (willRunCommandHooks hooked) ''c'').
                  hook_body b \<lparr>command = ''c'', args = []\<rparr> = None"
    by (simp add: hooked_lists returning_hook_def)
  have after: "\<forall>a\<in>set (hooks_of (didRunCommandSuccessfullyHooks hooked) ''c'').
                 \<forall>v. hook_body a \<lparr>command = ''c'', args = [], result = v\<rparr> = None"
    by (simp add: hooked_lists returning_hook_def)
  have ret: "constant_handler (Returns (JNum 1)) [] = Returns (JNum 1) \<and> JNum 1 \<noteq> JNull
             \<and> await (JNum 1) = Fulfils (JNum 1)"
    by (simp add: constant_handler_def)
  note named = hooks_run_in_order[where cmd = "''c''" and ext = hooked and as = "[]"
      and ns = "''sqltools''" and dev = False and h = "constant_handler (Returns (JNum 1))"]
  note unnamed = hooks_run_in_order[where cmd = "''c''" and ext = hooked_unnamed and as = "[]"
      and ns = "''sqltools''" and dev = False and h = "constant_handler (Returns (JNum 1))"]
  from named nonempty before after
  obtain pre post where
    tr: "snd (decorated ''sqltools'' False hooked ''c'' (constant_handler (Returns (JNum 1))) [])
        = pre @ map (\<lambda>b. BeforeHookCalled (hook_name b) \<lparr>command = ''c'', args = []\<rparr>)
                    (hooks_of (willRunCommandHooks hooked) ''c'')
              @ [HandlerCalled []] @ post"
    and pre: "\<forall>x\<in>set pre. \<not> is_call x"
    and post: "\<forall>x\<in>set post. \<not> is_before_call x \<and> \<not> is_handler_call x"
    and ok: "\<forall>r v. constant_handler (Returns (JNum 1)) [] = Returns r \<and> r \<noteq> JNull \<and> await r = Fulfils v \<longrightarrow>
          (\<exists>mid. post = mid @ map (\<lambda>a. AfterHookCalled (hook_name a)
                                        \<lparr>command = ''c'', args = [], result = v\<rparr>)
                                  (hooks_of (didRunCommandSuccessfullyHooks hooked) ''c'')
               \<and> (\<forall>x\<in>set mid. \<not> is_call x)
               \<and> DidRunFired \<lparr>command = ''c'', args = [], result = v\<rparr> \<in> set mid)"
    by blast
  from ok ret obtain mid where
    mid: "post = mid @ map (\<lambda>a. AfterHookCalled (hook_name a)
                                        \<lparr>command = ''c'', args = [], result = JNum 1\<rparr>)
                                  (hooks_of (didRunCommandSuccessfullyHooks hooked) ''c'')"
      "\<forall>x\<in>set mid. \<not> is_call x"
      "DidRunFired \<lparr>command = ''c'', args = [], result = JNum 1\<rparr> \<in> set mid"
    by blast
  have first: "\<exists>pre post.
      snd (decorated ''sqltools'' False hooked ''c'' (constant_handler (Returns (JNum 1))) [])
        = pre @ [BeforeHookCalled ''b1'' \<lparr>command = ''c'', args = []\<rparr>,
                 BeforeHookCalled ''b2'' \<lparr>command = ''c'', args = []\<rparr>]
              @ [HandlerCalled []] @ post
    \<and> (\<forall>x\<in>set pre. \<not> is_call x)
    \<and> (\<forall>x\<in>set post. \<not> is_before_call x \<and> \<not> is_handler_call x)
    \<and> (\<exists>mid. post = mid @ [AfterHookCalled ''a1'' \<lparr>command = ''c'', args = [], result = JNum 1\<rparr>]
           \<and> (\<forall>x\<in>set mid. \<not> is_call x)
           \<and> DidRunFired \<lparr>command = ''c'', args = [], result = JNum 1\<rparr> \<in> set mid)"
    using tr pre post mid
    by (intro exI[of _ pre] exI[of _ post])
       (simp add: hooked_lists returning_hook_def)
  from unnamed have second: "filter is_call
        (snd (decorated ''sqltools'' False hooked_unnamed [] (constant_handler (Returns (JNum 1))) []))
      = [HandlerCalled []]"
    by blast
  from first second show ?thesis by blast
qed

text \<open>
  C1 as stated fails for the command with the empty name: the guard
  \<^verbatim>\<open>if (!evt.command) return\<close> of both listeners leaves before any hook is called. A
  before-hook and an after-hook registered for that command are not called by a run of
  it, though the handler is and the success event is fired.
\<close>

theorem empty_command_skips_hooks:
  "map hook_name (hooks_of (willRunCommandHooks hooked_unnamed) []) = [''b1'']
   \<and> map hook_name (hooks_of (didRunCommandSuccessfullyHooks hooked_unnamed) []) = [''a1'']
   \<and> snd (decorated ''sqltools'' False hooked_unnamed [] (constant_handler (Returns (JNum 1))) [])
       = [LogInfo ''EXECUTING => sqltools.'' None,
          WillRunFired \<lparr>command = [], args = []\<rparr>,
          HandlerCalled [],
          DidRunFired \<lparr>command = [], args = [], result = JNum 1\<rparr>]"
  by (simp add: hooked_unnamed_def addBeforeCommandHook_def addAfterCommandSuccessHook_def
        addHook_def object_prototype_length_def no_hooks_def hooks_of_def
        returning_hook_def decorated_def constant_handler_def looks_pending_def fire_def
        onWillRunCommandHandler_def onDidRunCommandSuccessfullyHandler_def)

text \<open>
  Why the hooks are asked to return normally: a before-hook that throws ends
  \<^verbatim>\<open>forEach\<close>, so the hook registered after it is not called; the handler still runs.
\<close>

lemma throwing_hook_ends_iteration:
  "map hook_name (hooks_of (willRunCommandHooks hooked_throwing) ''c'') = [''b1'', ''b2'']
   \<and> filter is_call (snd (decorated ''sqltools'' False hooked_throwing ''c''
                            (constant_handler (Returns (JNum 1))) []))
       = [BeforeHookCalled ''b1'' \<lparr>command = ''c'', args = []\<rparr>, HandlerCalled []]"
  by (simp add: hooked_throwing_def addBeforeCommandHook_def addHook_def object_prototype_length_def
        no_hooks_def hooks_of_def
        returning_hook_def throwing_hook_def decorated_def constant_handler_def looks_pending_def
        fire_def onWillRunCommandHandler_def onDidRunCommandSuccessfullyHandler_def is_call_def)

subsection \<open>A handler that fails\<close>

text \<open>
  C2. For every command whose handler throws synchronously, or returns a pending
  computation that rejects, the run calls no after-success hook, never fires the "ran
  successfully" event, and the caller gets the failure: the run rejects with what the
  handler threw or the computation rejected with.
\<close>

theorem failed_handler_no_success:
  assumes "h as = Throws e \<or> (\<exists>r. h as = Returns r \<and> await r = Rejects e)"
  shows "fst (decorated ns dev ext cmd h as) = Rejects e
       \<and> (\<forall>x\<in>set (snd (decorated ns dev ext cmd h as)). \<not> is_after_call x \<and> \<not> is_did_run x)"
  using assms until_handler_no_success[of ns dev ext cmd as]
  by (auto simp: decorated_Throws decorated_Rejects)

text \<open>The theorem on a handler whose promise rejects, with an after-hook registered.\<close>

theorem failed_handler_no_success_witness:
  "fst (decorated ''sqltools'' True hooked ''c''
          (constant_handler (Returns (promise (Rejects (JStr ''boom''))))) [JNum 1]) = Rejects (JStr ''boom'')
   \<and> filter is_after_call (snd (decorated ''sqltools'' True hooked ''c''
          (constant_handler (Returns (promise (Rejects (JStr ''boom''))))) [JNum 1])) = []
   \<and> filter is_did_run (snd (decorated ''sqltools'' True hooked ''c''
          (constant_handler (Returns (promise (Rejects (JStr ''boom''))))) [JNum 1])) = []"
proof -
  have fails: "constant_handler (Returns (promise (Rejects (JStr ''boom'')))) [JNum 1] = Throws (JStr ''boom'')
        \<or> (\<exists>r. constant_handler (Returns (promise (Rejects (JStr ''boom'')))) [JNum 1] = Returns r
               \<and> await r = Rejects (JStr ''boom''))"
    by (simp add: constant_handler_def promise_def)
  from failed_handler_no_success[where h = "constant_handler (Returns (promise (Rejects (JStr ''boom''))))"
      and as = "[JNum 1]" and e = "JStr ''boom''" and ns = "''sqltools''" and dev = True
      and ext = hooked and cmd = "''c''"] fails
  show ?thesis by (simp add: filter_empty_conv)
qed

subsection \<open>A handler that returns \<^verbatim>\<open>null\<close>\<close>

text \<open>
  C3 at a handler that returns \<^verbatim>\<open>null\<close>. The handler completes without throwing and
  its value is plain, yet the test on the result reads \<^verbatim>\<open>result.then\<close> of \<^verbatim>\<open>null\<close>:
  the run rejects with a \<^verbatim>\<open>TypeError\<close> and the "ran successfully" event is not fired.
\<close>

theorem null_result_rejected:
  "fst (decorated ''sqltools'' False no_hooks ''openDocs'' (constant_handler (Returns JNull)) [])
     = Rejects (JError ''TypeError'')
   \<and> snd (decorated ''sqltools'' False no_hooks ''openDocs'' (constant_handler (Returns JNull)) [])
     = [LogInfo ''EXECUTING => sqltools.openDocs'' None,
        WillRunFired \<lparr>command = ''openDocs'', args = []\<rparr>,
        HandlerCalled []]"
  by (simp add: decorated_def constant_handler_def looks_pending_def fire_def
        onWillRunCommandHandler_def no_hooks_def object_prototype_length_def)

subsection \<open>What the caller gets\<close>

text \<open>
  C9 at a handler that returns \<^verbatim>\<open>null\<close>, on the command \<^verbatim>\<open>c\<close> with its hooks. The
  handler's return value is \<^verbatim>\<open>null\<close>; what the caller observes is not that value but
  a rejection with the \<^verbatim>\<open>TypeError\<close> the decoration itself raised when it read
  \<^verbatim>\<open>result.then\<close>.
\<close>

theorem null_result_not_returned:
  "constant_handler (Returns JNull) [JStr ''x''] = Returns JNull
   \<and> fst (decorated ''sqltools'' True hooked ''c'' (constant_handler (Returns JNull)) [JStr ''x''])
       = Rejects (JError ''TypeError'')
   \<and> fst (decorated ''sqltools'' True hooked ''c'' (constant_handler (Returns JNull)) [JStr ''x''])
       \<noteq> Fulfils JNull"
  by (simp add: decorated_Null constant_handler_def)

section \<open>Properties of plugin loading\<close>

text \<open>
  \<^verbatim>\<open>registerPlugin\<close> only queues before the first load pass and loads at once after it.
\<close>

lemma registerPlugin_not_loaded:
  "\<not> loaded ext \<Longrightarrow> registerPlugin ps ext = (ext\<lparr>pluginsQueue := pluginsQueue ext @ ps\<rparr>, [])"
  by (simp add: registerPlugin_def)

lemma registerPlugin_loaded:
  "loaded ext \<Longrightarrow> registerPlugin ps ext = loadPlugins (ext\<lparr>pluginsQueue := pluginsQueue ext @ ps\<rparr>)"
  by (simp add: registerPlugin_def)

text \<open>
  The bookkeeping throws exactly for a plugin with an id whose tag \<^verbatim>\<open>Object.prototype\<close>
  answers and has no list of its own, and then records nothing.
\<close>

lemma record_extensionId_throws:
  "fst (record_extensionId p m) \<noteq> None \<longleftrightarrow>
     (\<exists>i. extensionId p = Some i \<and> i \<noteq> []) \<and> m (type_tag p) = None
     \<and> object_prototype_length (type_tag p) \<noteq> None"
  by (auto simp: record_extensionId_def split: option.splits)

lemma record_extensionId_plain:
  "object_prototype_length (type_tag p) = None \<Longrightarrow> fst (record_extensionId p m) = None"
  by (simp add: record_extensionId_def split: option.splits)

lemma record_extensionId_thrown_unchanged:
  "fst (record_extensionId p m) = Some e \<Longrightarrow> snd (record_extensionId p m) = m"
  by (simp add: record_extensionId_def split: option.splits if_splits)

lemma ids_under_record_mono:
  "ids_under m tag \<subseteq> ids_under (snd (record_extensionId p m)) tag"
  by (auto simp: ids_under_def record_extensionId_def split: option.splits)

lemma ids_under_record_self:
  "extensionId p = Some i \<Longrightarrow> i \<noteq> [] \<Longrightarrow> object_prototype_length (type_tag p) = None \<Longrightarrow>
   i \<in> ids_under (snd (record_extensionId p m)) (type_tag p)"
  by (auto simp: ids_under_def record_extensionId_def split: option.splits)

lemma ids_under_record_new:
  "i \<in> ids_under (snd (record_extensionId p m)) tag \<Longrightarrow>
   i \<in> ids_under m tag \<or> (extensionId p = Some i \<and> type_tag p = tag)"
  by (auto simp: ids_under_def record_extensionId_def split: option.splits if_splits)

text \<open>The lists stay free of duplicates: an id already there is not pushed again.\<close>

lemma record_extensionId_distinct:
  "(\<forall>tag ids. m tag = Some ids \<longrightarrow> distinct ids) \<Longrightarrow>
   snd (record_extensionId p m) tag = Some ids \<Longrightarrow> distinct ids"
  by (auto simp: record_extensionId_def split: option.splits if_splits)

lemma ids_under_fold_mono:
  "ids_under m tag \<subseteq> ids_under (fold (\<lambda>p m. snd (record_extensionId p m)) ps m) tag"
proof (induction ps arbitrary: m)
  case Nil
  show ?case by simp
next
  case (Cons p ps)
  have "ids_under m tag \<subseteq> ids_under (snd (record_extensionId p m)) tag"
    by (rule ids_under_record_mono)
  also have "\<dots> \<subseteq> ids_under (fold (\<lambda>p m. snd (record_extensionId p m)) ps
                                (snd (record_extensionId p m))) tag"
    by (rule Cons.IH)
  finally show ?case by simp
qed

lemma ids_under_fold_member:
  "p \<in> set ps \<Longrightarrow> extensionId p = Some i \<Longrightarrow> i \<noteq> [] \<Longrightarrow>
   object_prototype_length (type_tag p) = None \<Longrightarrow>
   i \<in> ids_under (fold (\<lambda>p m. snd (record_extensionId p m)) ps m) (type_tag p)"
proof (induction ps arbitrary: m)
  case Nil
  then show ?case by simp
next
  case (Cons q ps)
  show ?case
  proof (cases "p = q")
    case True
    then have "i \<in> ids_under (snd (record_extensionId q m)) (type_tag p)"
      using Cons.prems ids_under_record_self by blast
    then show ?thesis using ids_under_fold_mono by fastforce
  next
    case False
    then show ?thesis using Cons by simp
  qed
qed

lemma ids_under_fold_new:
  "i \<in> ids_under (fold (\<lambda>p m. snd (record_extensionId p m)) ps m) tag \<Longrightarrow>
   i \<in> ids_under m tag \<or> (\<exists>p\<in>set ps. extensionId p = Some i \<and> type_tag p = tag)"
proof (induction ps arbitrary: m)
  case Nil
  then show ?case by simp
next
  case (Cons q ps)
  from Cons.prems
  have "i \<in> ids_under (fold (\<lambda>p m. snd (record_extensionId p m)) ps
                          (snd (record_extensionId q m))) tag"
    by simp
  from Cons.IH[OF this] show ?case
    using ids_under_record_new[of i q m tag] by auto
qed

text \<open>
  A load pass in closed form, where no plugin whose \<^verbatim>\<open>register\<close> returns has a type
  tag that \<^verbatim>\<open>Object.prototype\<close> answers: the queue is drained, the extension counts as
  loaded, and each plugin contributes its call and, if it threw, the report.
\<close>

lemma fold_load_one:
  "\<forall>p\<in>set (returned (register_outcomes ps (regs ext)) ps).
      object_prototype_length (type_tag p) = None \<Longrightarrow>
   fold load_one ps (ext, tr) =
     (ext\<lparr>regs := registries_after ps (regs ext),
          extPlugins := fold (\<lambda>p m. snd (record_extensionId p m))
             (returned (register_outcomes ps (regs ext)) ps) (extPlugins ext)\<rparr>,
      tr @ concat (map turn_events (zip (register_outcomes ps (regs ext)) ps)))"
proof (induction ps arbitrary: ext tr)
  case Nil
  then show ?case by (simp add: returned_def)
next
  case (Cons p ps)
  obtain r c where rc: "register p (regs ext) = (r, c)" by (cases "register p (regs ext)")
  show ?case
  proof (cases r)
    case None
    obtain m where m: "record_extensionId p (extPlugins ext) = (None, m)"
      using Cons.prems rc None record_extensionId_plain[of p "extPlugins ext"]
      by (cases "record_extensionId p (extPlugins ext)") (simp add: returned_def)
    have tail: "\<forall>q\<in>set (returned (register_outcomes ps (regs (ext\<lparr>regs := c, extPlugins := m\<rparr>))) ps).
                  object_prototype_length (type_tag q) = None"
      using Cons.prems rc None by (simp add: returned_def)
    show ?thesis
      using Cons.IH[OF tail] rc None m
      by (simp add: load_one_def returned_def turn_events_def)
  next
    case (Some err)
    have tail: "\<forall>q\<in>set (returned (register_outcomes ps (regs (ext\<lparr>regs := c\<rparr>))) ps).
                  object_prototype_length (type_tag q) = None"
      using Cons.prems rc Some by (simp add: returned_def)
    show ?thesis
      using Cons.IH[OF tail] rc Some
      by (simp add: load_one_def returned_def turn_events_def errorHandler_def)
  qed
qed

lemma zip_replicate_same: "zip (replicate (length xs) a) xs = map (Pair a) xs"
  by (induction xs) auto

lemma zip_one_bad:
  "zip (replicate (length before) None @ Some err # replicate (length after) None) (before @ bad # after)
     = map (Pair None) before @ (Some err, bad) # map (Pair None) after"
  by (simp add: zip_replicate_same)

lemma returned_one_bad:
  "returned (replicate (length before) None @ Some err # replicate (length after) None)
            (before @ bad # after) = before @ after"
  by (simp add: returned_def zip_one_bad filter_map comp_def map_idI)

lemma turn_events_returned:
  "concat (map turn_events (map (Pair None) ps)) = map (\<lambda>p. RegisterCalled (name p)) ps"
  by (induction ps) (auto simp: turn_events_def)

text \<open>
  Away from the tags that \<^verbatim>\<open>Object.prototype\<close> answers, a pass in which exactly one
  \<^verbatim>\<open>register\<close> call throws does what is asked of it. Let the queue be \<open>before\<close>, then
  \<open>bad\<close>, then \<open>after\<close>, and let the call of \<open>bad\<close> be the only one that throws, with
  error \<open>err\<close>. Then \<^verbatim>\<open>register\<close> is called on every plugin of the queue, in queue
  order; every other plugin's id (one that is there and not empty) ends up recorded under
  the plugin's type tag, \<^verbatim>\<open>general\<close> by default; the error is reported with the message
  that names \<open>bad\<close>; and the record of ids is the one the other plugins alone produce,
  so that an id is recorded after the pass only if it was before or one of the other
  plugins declares it under that tag.
\<close>

lemma one_throwing_plugin_plain_tags:
  assumes "pluginsQueue ext = before @ bad # after"
    and "register_outcomes (pluginsQueue ext) (regs ext)
           = replicate (length before) None @ Some err # replicate (length after) None"
    and "\<forall>p\<in>set (before @ after). object_prototype_length (type_tag p) = None"
  shows "filter is_register_call (snd (loadPlugins ext))
           = map (\<lambda>p. RegisterCalled (name p)) (before @ bad # after)
    \<and> (\<forall>p\<in>set (before @ after). \<forall>i. extensionId p = Some i \<and> i \<noteq> [] \<longrightarrow>
           i \<in> ids_under (extPlugins (fst (loadPlugins ext))) (type_tag p))
    \<and> ErrorReported (''Error loading plugin '' @ name bad) err \<in> set (snd (loadPlugins ext))
    \<and> extPlugins (fst (loadPlugins ext))
         = fold (\<lambda>p m. snd (record_extensionId p m)) (before @ after) (extPlugins ext)
    \<and> (\<forall>i tag. i \<in> ids_under (extPlugins (fst (loadPlugins ext))) tag \<longrightarrow>
           i \<in> ids_under (extPlugins ext) tag
           \<or> (\<exists>p\<in>set (before @ after). extensionId p = Some i \<and> type_tag p = tag))
    \<and> pluginsQueue (fst (loadPlugins ext)) = [] \<and> loaded (fst (loadPlugins ext))"
proof -
  let ?ext' = "fst (loadPlugins ext)" and ?tr = "snd (loadPlugins ext)"
  let ?ext1 = "ext\<lparr>pluginsQueue := [], loaded := True\<rparr>"
  have outs: "register_outcomes (before @ bad # after) (regs ext)
                = replicate (length before) None @ Some err # replicate (length after) None"
    using assms by simp
  have plain: "\<forall>p\<in>set (returned (register_outcomes (before @ bad # after) (regs ?ext1))
                                   (before @ bad # after)).
                 object_prototype_length (type_tag p) = None"
    using assms(3) by (simp add: outs returned_one_bad)
  have closed: "loadPlugins ext =
     (?ext1\<lparr>regs := registries_after (before @ bad # after) (regs ext),
            extPlugins := fold (\<lambda>p m. snd (record_extensionId p m)) (before @ after) (extPlugins ext)\<rparr>,
      concat (map turn_events (zip (register_outcomes (before @ bad # after) (regs ext))
                                   (before @ bad # after))) @ [UpdateExtPluginsInfo])"
    using fold_load_one[OF plain, of "[]"]
    by (simp add: loadPlugins_def assms(1) outs returned_one_bad)
  have tr: "?tr = map (\<lambda>p. RegisterCalled (name p)) before
                @ RegisterCalled (name bad) # ErrorReported (''Error loading plugin '' @ name bad) err
                # map (\<lambda>p. RegisterCalled (name p)) after @ [UpdateExtPluginsInfo]"
  proof -
    have "concat (map turn_events (zip (register_outcomes (before @ bad # after) (regs ext))
                                       (before @ bad # after)))
          = map (\<lambda>p. RegisterCalled (name p)) before
            @ turn_events (Some err, bad) @ map (\<lambda>p. RegisterCalled (name p)) after"
      by (simp only: outs zip_one_bad map_append list.map concat_append concat.simps
            turn_events_returned append_Nil2)
    then show ?thesis
      by (simp add: closed turn_events_def)
  qed
  have ids: "extPlugins ?ext'
               = fold (\<lambda>p m. snd (record_extensionId p m)) (before @ after) (extPlugins ext)"
    by (simp add: closed)
  have calls: "filter is_register_call ?tr = map (\<lambda>p. RegisterCalled (name p)) (before @ bad # after)"
    by (simp add: tr filter_map comp_def)
  have recorded: "\<forall>p\<in>set (before @ after). \<forall>i. extensionId p = Some i \<and> i \<noteq> [] \<longrightarrow>
           i \<in> ids_under (extPlugins ?ext') (type_tag p)"
    unfolding ids using ids_under_fold_member assms(3) by blast
  have reported: "ErrorReported (''Error loading plugin '' @ name bad) err \<in> set ?tr"
    by (simp add: tr)
  have only: "\<forall>i tag. i \<in> ids_under (extPlugins ?ext') tag \<longrightarrow>
           i \<in> ids_under (extPlugins ext) tag
           \<or> (\<exists>p\<in>set (before @ after). extensionId p = Some i \<and> type_tag p = tag)"
    unfolding ids using ids_under_fold_new by blast
  have drained: "pluginsQueue ?ext' = [] \<and> loaded ?ext'"
    by (simp add: closed)
  from calls recorded reported ids only drained show ?thesis by blast
qed

text \<open>The lemma on a queue of three plugins of which the second throws.\<close>

lemma one_throwing_plugin_example:
  "filter is_register_call (snd (loadPlugins example_extension))
     = [RegisterCalled ''first'', RegisterCalled ''broken'', RegisterCalled ''last'']
   \<and> ErrorReported ''Error loading plugin broken'' (JError ''Error'')
        \<in> set (snd (loadPlugins example_extension))
   \<and> extPlugins (fst (loadPlugins example_extension)) ''general'' = Some [''ext.first'']
   \<and> extPlugins (fst (loadPlugins example_extension)) ''driver'' = Some [''ext.last'']
   \<and> ids_under (extPlugins (fst (loadPlugins example_extension))) ''general'' = {''ext.first''}"
  by (simp add: loadPlugins_def example_extension_def load_one_def good_plugin_def bad_plugin_def
        record_extensionId_def type_tag_def errorHandler_def addBeforeCommandHook_def addHook_def
        object_prototype_length_def no_hooks_def ids_under_def)

text \<open>
  C4 at a queue of three plugins: \<^verbatim>\<open>first\<close>, then \<^verbatim>\<open>broken\<close>, whose \<^verbatim>\<open>register\<close> is
  the only one that throws, then \<^verbatim>\<open>odd\<close>, which declares the id \<^verbatim>\<open>ext.odd\<close> and the
  type tag \<^verbatim>\<open>constructor\<close>. The \<^verbatim>\<open>register\<close> call of \<^verbatim>\<open>odd\<close> returns, yet its id is
  not recorded, under its tag or any other, and \<^verbatim>\<open>odd\<close> is reported as failing to load:
  the bookkeeping reads the inherited \<^verbatim>\<open>constructor\<close> of the plain object
  \<^verbatim>\<open>extPlugins\<close> and throws inside the \<^verbatim>\<open>try\<close>.
\<close>

theorem inherited_tag_not_recorded:
  "register_outcomes (pluginsQueue example_extension_odd) (regs example_extension_odd)
     = [None, Some (JError ''Error''), None]
   \<and> snd (loadPlugins example_extension_odd)
     = [RegisterCalled ''first'',
        RegisterCalled ''broken'', ErrorReported ''Error loading plugin broken'' (JError ''Error''),
        RegisterCalled ''odd'', ErrorReported ''Error loading plugin odd'' (JError ''TypeError''),
        UpdateExtPluginsInfo]
   \<and> extPlugins (fst (loadPlugins example_extension_odd)) ''general'' = Some [''ext.first'']
   \<and> extPlugins (fst (loadPlugins example_extension_odd)) ''constructor'' = None
   \<and> ids_under (extPlugins (fst (loadPlugins example_extension_odd))) ''constructor'' = {}"
  by (simp add: loadPlugins_def example_extension_odd_def load_one_def good_plugin_def bad_plugin_def
        record_extensionId_def type_tag_def errorHandler_def addBeforeCommandHook_def addHook_def
        object_prototype_length_def no_hooks_def ids_under_def)

section \<open>Properties of the results panel\<close>

lemma getCurrentResult_Some: "getCurrentResult (Some s) st = nth_js (resultTabs s) (activeTab s)"
  by (simp add: getCurrentResult_def)


lemma set'_loading:
  "set' [Set_loading True] p =
     (None, p\<lparr>state := (state p)\<lparr>loading := True\<rparr>,
              dispatched := dispatched p @ [SET (Some [Set_loading True])]\<rparr>)"
  by (simp add: set'_def dispatch_def spread_def)

text \<open>
  \<^verbatim>\<open>resetRequest\<close> dispatches \<^verbatim>\<open>RESULTS_RECEIVED\<close> without a payload: an action is
  dispatched, and the state it yields equals the state before.
\<close>

lemma resetRequest_dispatches:
  "resetRequest p = (None, p\<lparr>dispatched := dispatched p @ [RESULTS_RECEIVED None]\<rparr>)"
  by (simp add: resetRequest_def dispatch_def spread_def)

lemma changePage_active:
  "nth_js (resultTabs (state p)) (activeTab (state p)) = Some r \<Longrightarrow>
   changePage ns pg p =
     (None, sendMessage ''call''
        (Call (ns @ ''.'' @ to_string (queryType r))
           (Some [queryParams r,
                  JObj [(''page'', JNum pg),
                        (''pageSize'', js_or (pageSize r) (JNum 50)),
                        (''requestId'', requestId r)]]))
        (p\<lparr>state := (state p)\<lparr>loading := True\<rparr>,
           dispatched := dispatched p @ [SET (Some [Set_loading True])]\<rparr>))"
  by (simp add: changePage_def set'_loading)

subsection \<open>The reducer and the \<^verbatim>\<open>reset\<close> message\<close>

text \<open>The reducer itself answers \<^verbatim>\<open>RESET\<close> with the initial state, whatever the state.\<close>

lemma reducer_RESET:
  "reducer s RESET = Inr \<lparr>loading = True, error = None, resultTabs = [], activeTab = 0\<rparr>"
  by (simp add: initialState_def)

text \<open>Two \<^verbatim>\<open>SET\<close> actions in a row assign what one \<^verbatim>\<open>SET\<close> of both payloads assigns.\<close>

lemma reducer_SET_twice:
  "reducer (spread s (Some cs)) (SET (Some ds)) = reducer s (SET (Some (cs @ ds)))"
  by (simp add: spread_def)

text \<open>
  No message reaches that branch: \<^verbatim>\<open>resetRequest\<close> dispatches \<^verbatim>\<open>RESULTS_RECEIVED\<close>
  without a payload, which yields a state equal to the one before.
\<close>

lemma reset_message_changes_nothing:
  "state (snd (messagesHandler \<lparr>action = JStr ''reset'', payload = pl\<rparr> p)) = state p"
  by (simp add: messagesHandler_def resetRequest_dispatches)

text \<open>
  C5 at a panel that shows one result and is not loading: after the inbound message
  \<^verbatim>\<open>reset\<close> the state is the state before, with its result tab and \<^verbatim>\<open>loading\<close> false,
  and not the initial state.
\<close>

theorem reset_message_keeps_results:
  "state (snd (messagesHandler \<lparr>action = JStr ''reset'', payload = NoPayload\<rparr> (example_panel JUndefined)))
     = \<lparr>loading = False, error = None, resultTabs = [example_result JUndefined], activeTab = 0\<rparr>
   \<and> state (snd (messagesHandler \<lparr>action = JStr ''reset'', payload = NoPayload\<rparr> (example_panel JUndefined)))
     \<noteq> initialState"
  by (simp add: messagesHandler_def resetRequest_dispatches example_panel_def initialState_def)

subsection \<open>Outbound calls and \<^verbatim>\<open>loading\<close>\<close>

text \<open>
  C6 as stated fails for the export: \<^verbatim>\<open>exportResults\<close> sends its \<^verbatim>\<open>call\<close> message
  and leaves \<^verbatim>\<open>loading\<close> as it was, here false.
\<close>

theorem export_keeps_loading:
  "sent (snd (exportResults ''sqltools'' example_menu (JStr ''SaveCSVOption'') (example_panel JUndefined)))
     = [\<lparr>action = JStr ''call'',
         payload = Call ''sqltools.saveResults''
           (Some [JObj [(''requestId'', JNum 7), (''resultId'', JStr ''r1''),
                        (''baseQuery'', JStr ''select 1''), (''connId'', JStr ''conn''),
                        (''fileType'', JStr ''csv'')]])\<rparr>]
   \<and> loading (state (snd (exportResults ''sqltools'' example_menu (JStr ''SaveCSVOption'')
                            (example_panel JUndefined)))) = False"
  by (simp add: exportResults_def getCurrentResult_def nth_js_def example_panel_def example_result_def
        example_menu_def sendMessage_def getCurrentQueryOptions_def)

text \<open>
  C6, as the code has it. With an active result, re-running the query and changing the
  page each send exactly one \<^verbatim>\<open>call\<close> message and return with \<^verbatim>\<open>loading\<close> true, so
  that it is set before any answer of the host is handled; the export sends exactly one
  \<^verbatim>\<open>call\<close> message and leaves the state as it was.
\<close>

theorem rerun_and_paging_set_loading:
  assumes "nth_js (resultTabs (state p)) (activeTab (state p)) = Some r"
  shows "(\<exists>c a. sent (snd (reRunQuery ns p)) = sent p @ [\<lparr>action = JStr ''call'', payload = Call c a\<rparr>])
       \<and> loading (state (snd (reRunQuery ns p)))
       \<and> (\<exists>c a. sent (snd (changePage ns pg p)) = sent p @ [\<lparr>action = JStr ''call'', payload = Call c a\<rparr>])
       \<and> loading (state (snd (changePage ns pg p)))
       \<and> (\<exists>c a. sent (snd (exportResults ns menu choice p))
                  = sent p @ [\<lparr>action = JStr ''call'', payload = Call c a\<rparr>])
       \<and> state (snd (exportResults ns menu choice p)) = state p"
  using assms
  by (simp add: reRunQuery_def changePage_active exportResults_def getCurrentResult_Some
        set'_loading sendMessage_def)

text \<open>The theorem on the panel that shows one result and is not loading.\<close>

theorem rerun_and_paging_set_loading_witness:
  "loading (state (snd (reRunQuery ''sqltools'' (example_panel JUndefined))))
   \<and> loading (state (snd (changePage ''sqltools'' 2 (example_panel JUndefined))))
   \<and> \<not> loading (state (snd (exportResults ''sqltools'' example_menu (JStr ''SaveCSVOption'')
                               (example_panel JUndefined))))"
proof -
  have active: "nth_js (resultTabs (state (example_panel JUndefined)))
                  (activeTab (state (example_panel JUndefined))) = Some (example_result JUndefined)"
    by (simp add: example_panel_def nth_js_def)
  have before: "\<not> loading (state (example_panel JUndefined))"
    by (simp add: example_panel_def)
  from rerun_and_paging_set_loading[OF active, of "''sqltools''" 2 example_menu "JStr ''SaveCSVOption''"]
    before
  show ?thesis by simp
qed

subsection \<open>The arguments of a pagination call\<close>

text \<open>
  C7 as stated fails where the active result's \<^verbatim>\<open>pageSize\<close> is 0: the code writes
  \<^verbatim>\<open>activeResult.pageSize || 50\<close>, and the page size sent is 50, not 0.
\<close>

theorem changePage_zero_pageSize:
  "sent (snd (changePage ''sqltools'' 3 (example_panel (JNum 0))))
     = [\<lparr>action = JStr ''call'',
         payload = Call ''sqltools.select''
           (Some [JObj [(''q'', JStr ''a'')],
                  JObj [(''page'', JNum 3), (''pageSize'', JNum 50), (''requestId'', JNum 7)]])\<rparr>]"
  by (simp add: changePage_def set'_loading sendMessage_def js_or_def nth_js_def
        example_panel_def example_result_def)

text \<open>
  C7, as the code has it. For every active result, \<^verbatim>\<open>changePage(p)\<close> sends exactly one
  \<^verbatim>\<open>call\<close> message, whose arguments are the result's \<^verbatim>\<open>queryParams\<close> and
  \<^verbatim>\<open>{page: p, pageSize: activeResult.pageSize || 50, requestId: activeResult.requestId}\<close>:
  the page size sent is 50 when \<^verbatim>\<open>pageSize\<close> is undefined and also when it is 0, and is
  \<^verbatim>\<open>pageSize\<close> itself when that is truthy.
\<close>

theorem changePage_args:
  assumes "nth_js (resultTabs (state p)) (activeTab (state p)) = Some r"
  shows "sent (snd (changePage ns pg p)) = sent p @
           [\<lparr>action = JStr ''call'',
             payload = Call (ns @ ''.'' @ to_string (queryType r))
               (Some [queryParams r,
                      JObj [(''page'', JNum pg),
                            (''pageSize'', js_or (pageSize r) (JNum 50)),
                            (''requestId'', requestId r)]])\<rparr>]
       \<and> (pageSize r = JUndefined \<longrightarrow> js_or (pageSize r) (JNum 50) = JNum 50)
       \<and> (pageSize r = JNum 0 \<longrightarrow> js_or (pageSize r) (JNum 50) = JNum 50)
       \<and> (truthy (pageSize r) \<longrightarrow> js_or (pageSize r) (JNum 50) = pageSize r)"
  using assms
  by (simp add: changePage_active sendMessage_def js_or_def)

text \<open>
  The theorem on the scenario of the specification: one result with query type
  \<^verbatim>\<open>select\<close>, parameters \<^verbatim>\<open>{q:'a'}\<close>, no page size and request id 7, and
  \<^verbatim>\<open>changePage(3)\<close>.
\<close>

theorem changePage_args_witness:
  "sent (snd (changePage ''sqltools'' 3 (example_panel JUndefined)))
     = [\<lparr>action = JStr ''call'',
         payload = Call ''sqltools.select''
           (Some [JObj [(''q'', JStr ''a'')],
                  JObj [(''page'', JNum 3), (''pageSize'', JNum 50), (''requestId'', JNum 7)]])\<rparr>]"
proof -
  have active: "nth_js (resultTabs (state (example_panel JUndefined)))
                  (activeTab (state (example_panel JUndefined))) = Some (example_result JUndefined)"
    by (simp add: example_panel_def nth_js_def)
  from changePage_args[OF active, of "''sqltools''" 3]
  show ?thesis by (simp add: example_panel_def example_result_def)
qed

subsection \<open>No results\<close>




subsection \<open>Messages without an action\<close>

text \<open>
  C10. For every inbound message whose \<^verbatim>\<open>action\<close> is missing or falsy, the handler
  returns at once and the panel is as before: no reducer action was dispatched, no message
  was sent, nothing was logged, and the state is unchanged. A truthy action that is none
  of \<^verbatim>\<open>queryResults\<close>, \<^verbatim>\<open>reset\<close>, \<^verbatim>\<open>getState\<close> is logged as received and then at
  warning level, and changes nothing else.
\<close>

theorem falsy_action_ignored:
  "(\<not> truthy (action msg) \<longrightarrow>
        messagesHandler msg p = (None, p)
      \<and> dispatched (snd (messagesHandler msg p)) = dispatched p
      \<and> sent (snd (messagesHandler msg p)) = sent p
      \<and> logged (snd (messagesHandler msg p)) = logged p
      \<and> state (snd (messagesHandler msg p)) = state p)
   \<and> (truthy a \<and> a \<notin> {JStr ''queryResults'', JStr ''reset'', JStr ''getState''} \<longrightarrow>
        messagesHandler \<lparr>action = a, payload = pl\<rparr> p =
          (None, p\<lparr>logged := logged p @
              [MessageLog ''received => %s %O'' a (payload_or_placeholder pl),
               Warn ''No handler set for %s'' a]\<rparr>))"
  by (simp add: messagesHandler_def)

text \<open>
  The theorem on a message without an action, on one whose action is the empty string,
  and on the unknown action \<^verbatim>\<open>ping\<close>. The \<^verbatim>\<open>reset\<close> message, by contrast, does
  dispatch an action.
\<close>

theorem falsy_action_ignored_witness:
  "messagesHandler \<lparr>action = JUndefined, payload = Results []\<rparr> (example_panel JUndefined)
     = (None, example_panel JUndefined)
   \<and> dispatched (snd (messagesHandler \<lparr>action = JUndefined, payload = Results []\<rparr>
                         (example_panel JUndefined))) = []
   \<and> messagesHandler \<lparr>action = JStr [], payload = Results []\<rparr> (example_panel JUndefined)
     = (None, example_panel JUndefined)
   \<and> logged (snd (messagesHandler \<lparr>action = JStr ''ping'', payload = NoPayload\<rparr> (example_panel JUndefined)))
     = [MessageLog ''received => %s %O'' (JStr ''ping'') (OtherPayload (JStr ''NO_PAYLOAD'')),
        Warn ''No handler set for %s'' (JStr ''ping'')]
   \<and> dispatched (snd (messagesHandler \<lparr>action = JStr ''reset'', payload = NoPayload\<rparr>
                         (example_panel JUndefined))) = [RESULTS_RECEIVED None]"
proof -
  have reset: "dispatched (snd (messagesHandler \<lparr>action = JStr ''reset'', payload = NoPayload\<rparr>
                         (example_panel JUndefined))) = [RESULTS_RECEIVED None]"
    by (simp add: messagesHandler_def resetRequest_dispatches example_panel_def)
  from falsy_action_ignored[of "\<lparr>action = JUndefined, payload = Results []\<rparr>" "example_panel JUndefined"
      "JStr ''ping''" NoPayload]
    falsy_action_ignored[of "\<lparr>action = JStr [], payload = Results []\<rparr>" "example_panel JUndefined"
      "JStr ''ping''" NoPayload]
    reset
  show ?thesis by (simp add: example_panel_def)
qed

end
